theory Spec2Isabelle
  imports Main "HOL-Library.Word"
begin

section \<open>JavaScript values\<close>

text \<open>
  A Node \<open>Buffer\<close> is a list of bytes. A JavaScript string is a list of UTF-16 code
  units, so that \<open>trim()\<close> and the regular expression class \<open>\s\<close> can be written
  with the code points ECMAScript gives them.
\<close>

type_synonym byte = "8 word"
type_synonym buffer = "byte list"
type_synonym jschar = "16 word"
type_synonym jsstr = "jschar list"

definition str :: "string \<Rightarrow> jsstr" where
  "str s = map of_char s"

text \<open>
  Values as \<open>JSON.parse\<close> produces them, with \<open>undefined\<close> for a property that is
  absent. A number is kept as the bit pattern of its IEEE-754 double; an object lists its
  own properties.
\<close>

datatype jsval =
    JUndefined
  | JNull
  | JBool bool
  | JNum "64 word"
  | JStr jsstr
  | JArr "jsval list"
  | JObj "(jsstr \<times> jsval) list"

datatype js_error = Error jsstr | TypeError jsstr | SyntaxError jsstr

fun message :: "js_error \<Rightarrow> jsstr" where
  "message (Error m) = m"
| "message (TypeError m) = m"
| "message (SyntaxError m) = m"

text \<open>
  \<open>!v\<close> is \<open>\<not> truthy v\<close>: the falsy values are \<open>undefined\<close>, \<open>null\<close>, \<open>false\<close>,
  \<open>+0\<close>, \<open>-0\<close>, \<open>NaN\<close> and the empty string.
\<close>

definition number_truthy :: "64 word \<Rightarrow> bool" where
  "number_truthy bits =
     (let magnitude = and bits 0x7FFFFFFFFFFFFFFF
      in magnitude \<noteq> 0 \<and> magnitude \<le> 0x7FF0000000000000)"

fun truthy :: "jsval \<Rightarrow> bool" where
  "truthy JUndefined = False"
| "truthy JNull = False"
| "truthy (JBool b) = b"
| "truthy (JNum bits) = number_truthy bits"
| "truthy (JStr s) = (s \<noteq> [])"
| "truthy (JArr _) = True"
| "truthy (JObj _) = True"

text \<open>
  The property read \<open>v.k\<close>, for the two keys this program reads (\<open>type\<close> and
  \<open>language\<close>), which no prototype of a primitive or of an array defines: reading from
  \<open>null\<close> or \<open>undefined\<close> throws, reading from an object looks the key up, and
  anything else gives \<open>undefined\<close>.
\<close>

fun get_prop :: "jsval \<Rightarrow> string \<Rightarrow> js_error + jsval" where
  "get_prop JUndefined k =
     Inl (TypeError (str ''Cannot read properties of undefined (reading '' @ [0x27] @ str k @ [0x27] @ str '')''))"
| "get_prop JNull k =
     Inl (TypeError (str ''Cannot read properties of null (reading '' @ [0x27] @ str k @ [0x27] @ str '')''))"
| "get_prop (JObj props) k =
     Inr (case map_of props (str k) of None \<Rightarrow> JUndefined | Some v \<Rightarrow> v)"
| "get_prop _ k = Inr JUndefined"

text \<open>
  \<open>WhiteSpace\<close> and \<open>LineTerminator\<close> of ECMAScript: the characters that
  \<open>String.prototype.trim\<close> strips and that \<open>\s\<close> matches.
\<close>

definition is_space :: "jschar \<Rightarrow> bool" where
  "is_space c =
     (c = 0x9 \<or> c = 0xA \<or> c = 0xB \<or> c = 0xC \<or> c = 0xD \<or> c = 0x20 \<or> c = 0xA0
      \<or> c = 0x1680 \<or> (0x2000 \<le> c \<and> c \<le> 0x200A) \<or> c = 0x2028 \<or> c = 0x2029
      \<or> c = 0x202F \<or> c = 0x205F \<or> c = 0x3000 \<or> c = 0xFEFF)"

definition trim :: "jsstr \<Rightarrow> jsstr" where
  "trim s = rev (dropWhile is_space (rev (dropWhile is_space s)))"

definition startsWith :: "jsstr \<Rightarrow> jsstr \<Rightarrow> bool" where
  "startsWith s p = (take (length p) s = p)"


section \<open>The engine SDK and the runtime\<close>

text \<open>
  The generative-AI SDK is an external collaborator. Its calls are fields of an
  environment record; each takes the engine's state \<open>'e\<close> and returns either the
  error it throws or its result, with the next engine state, so that a multi-turn chat may
  answer the same request differently each time. \<open>sendMessage\<close> and
  \<open>generateContent\<close> stand for the call together with \<open>(await result.response).text()\<close>.
  The library functions \<open>Buffer.prototype.toString()\<close> (UTF-8 decoding),
  \<open>JSON.parse\<close> and the string conversion of a template literal are fields too, and so
  is the environment variable \<open>NODE_ENV\<close>.
\<close>

type_synonym model = nat
type_synonym chat = nat

text \<open>\<open>buf.toString('base64')\<close>, kept as the bytes it encodes.\<close>

datatype base64 = Base64 buffer

datatype part = TextPart jsstr | InlineData (mimeType: jsstr) (data: base64)

datatype gen_request = PromptText jsstr | Contents "part list"

record 'e env =
  NODE_ENV :: "jsstr option"
  utf8 :: "buffer \<Rightarrow> jsstr"
  JSON_parse :: "jsstr \<Rightarrow> js_error + jsval"
  ToString :: "jsval \<Rightarrow> jsstr"
  getGenerativeModel :: "'e \<Rightarrow> (js_error + model) \<times> 'e"
  startChat :: "model \<Rightarrow> 'e \<Rightarrow> (js_error + chat) \<times> 'e"
  sendMessage :: "chat \<Rightarrow> part list \<Rightarrow> 'e \<Rightarrow> (js_error + jsstr) \<times> 'e"
  generateContent :: "model \<Rightarrow> gen_request \<Rightarrow> 'e \<Rightarrow> (js_error + jsstr) \<times> 'e"
  generateContentStream :: "model \<Rightarrow> jsstr \<Rightarrow> 'e \<Rightarrow> (jsstr list \<times> js_error option) \<times> 'e"

text \<open>\<open>`${v}`\<close>: a string is interpolated as it is, any other value through the runtime.\<close>

definition interpolate :: "'e env \<Rightarrow> jsval \<Rightarrow> jsstr" where
  "interpolate env v = (case v of JStr s \<Rightarrow> s | _ \<Rightarrow> ToString env v)"


section \<open>The WebSocket server: sessions, effects, the world\<close>

type_synonym sid = jsstr
type_synonym socket = nat

text \<open>
  The object stored in \<open>activeSessions\<close> by \<open>handleConnection\<close>. \<open>geminiChat\<close> is
  not a property of the new object (\<open>None\<close>) until \<open>handleStartCommand\<close> sets it.
\<close>

record session =
  ws :: socket
  targetLanguage :: jsval
  audioChunks :: "buffer list"
  isTranscribing :: bool
  geminiModel :: "model option"
  geminiStream :: "unit option"
  geminiChat :: "chat option"

datatype level = Info | Err

text \<open>
  What the server does to the outside, in the order it does it: \<open>ws.send(JSON.stringify(obj))\<close>
  is \<open>WsSend\<close> with the object, \<open>ws.close()\<close> is \<open>WsClose\<close>, a call of the logger is
  \<open>Log\<close> with its level (the text of the log line is not kept), and the two SDK calls
  that carry a request are recorded with the request.
\<close>

datatype effect =
    WsSend socket jsval
  | WsClose socket
  | Log level
  | SendMessage chat "part list"
  | GenerateContent gen_request

record 'e world =
  activeSessions :: "sid \<rightharpoonup> session"
  engine :: 'e
  trace :: "effect list"

text \<open>A handler either returns or throws; the mutations it made before throwing stay.\<close>

datatype 'w outcome = Done 'w | Thrown js_error 'w

definition emit :: "effect \<Rightarrow> 'e world \<Rightarrow> 'e world" where
  "emit x w = w\<lparr>trace := trace w @ [x]\<rparr>"

definition ws_send :: "socket \<Rightarrow> jsval \<Rightarrow> 'e world \<Rightarrow> 'e world" where
  "ws_send sock obj w = emit (WsSend sock obj) w"

definition logger :: "level \<Rightarrow> 'e world \<Rightarrow> 'e world" where
  "logger l w = emit (Log l) w"

text \<open>Assignment to a field of the session object that \<open>activeSessions.get(sessionId)\<close> returned.\<close>

definition update_session :: "sid \<Rightarrow> (session \<Rightarrow> session) \<Rightarrow> 'e world \<Rightarrow> 'e world" where
  "update_session sessionId f w =
     (case activeSessions w sessionId of
        None \<Rightarrow> w
      | Some s \<Rightarrow> w\<lparr>activeSessions := (activeSessions w)(sessionId \<mapsto> f s)\<rparr>)"

definition sdk_call :: "('e \<Rightarrow> 'a \<times> 'e) \<Rightarrow> 'e world \<Rightarrow> 'a \<times> 'e world" where
  "sdk_call f w = (case f (engine w) of (r, e') \<Rightarrow> (r, w\<lparr>engine := e'\<rparr>))"

definition undefined_session :: "string \<Rightarrow> js_error" where
  "undefined_session k =
     TypeError (str ''Cannot read properties of undefined (reading '' @ [0x27] @ str k @ [0x27] @ str '')'')"

text \<open>The assignment \<open>session.k = v\<close> when \<open>session\<close> is \<open>undefined\<close>.\<close>

definition undefined_session_set :: "string \<Rightarrow> js_error" where
  "undefined_session_set k =
     TypeError (str ''Cannot set properties of undefined (setting '' @ [0x27] @ str k @ [0x27] @ str '')'')"

definition initial :: "'e \<Rightarrow> 'e world" where
  "initial e = \<lparr>activeSessions = Map.empty, engine = e, trace = []\<rparr>"


section \<open>The WebSocket server: the handlers\<close>

text \<open>
  Each handler is run to completion on the world it finds, in the order of the source's
  statements. \<open>generateSessionId()\<close> draws on \<open>Math.random()\<close>, so the identifier
  is an argument of \<open>handleConnection\<close>. \<open>ws.send\<close> is taken not to throw.
\<close>

definition handleConnection :: "socket \<Rightarrow> sid \<Rightarrow> 'e world \<Rightarrow> 'e world" where
  "handleConnection sock sessionId w =
     (let w1 = logger Info w;
          w2 = w1\<lparr>activeSessions := (activeSessions w1)(sessionId \<mapsto>
                 \<lparr>ws = sock, targetLanguage = JStr (str ''en''), audioChunks = [],
                  isTranscribing = False, geminiModel = None, geminiStream = None,
                  geminiChat = None\<rparr>)\<rparr>
      in ws_send sock (JObj [(str ''type'', JStr (str ''session'')),
                             (str ''sessionId'', JStr sessionId)]) w2)"

definition translate_prompt :: "'e env \<Rightarrow> jsval \<Rightarrow> jsstr \<Rightarrow> jsstr" where
  "translate_prompt env targetLang text =
     str ''Translate the following English text to '' @ interpolate env targetLang
       @ str '': '' @ [0x22] @ text @ [0x22]"

definition translateAndSend :: "'e env \<Rightarrow> jsstr \<Rightarrow> jsval \<Rightarrow> socket \<Rightarrow> 'e world \<Rightarrow> 'e world" where
  "translateAndSend env text targetLang sock w =
     (let failed = (\<lambda>w'. ws_send sock
             (JObj [(str ''type'', JStr (str ''translation'')),
                    (str ''text'', JStr (str ''Translation error. Please try again.'')),
                    (str ''sourceText'', JStr text),
                    (str ''targetLanguage'', targetLang),
                    (str ''error'', JBool True)]) (logger Err w'))
      in case sdk_call (getGenerativeModel env) w of
           (Inl error, w1) \<Rightarrow> failed w1
         | (Inr model, w1) \<Rightarrow>
             (let prompt = translate_prompt env targetLang text;
                  w2 = emit (GenerateContent (PromptText prompt)) w1
              in case sdk_call (generateContent env model (PromptText prompt)) w2 of
                   (Inl error, w3) \<Rightarrow> failed w3
                 | (Inr translation, w3) \<Rightarrow>
                     ws_send sock
                       (JObj [(str ''type'', JStr (str ''translation'')),
                              (str ''text'', JStr (trim translation)),
                              (str ''sourceText'', JStr text),
                              (str ''targetLanguage'', targetLang)]) w3))"

definition processAudioChunks :: "'e env \<Rightarrow> sid \<Rightarrow> 'e world \<Rightarrow> 'e world outcome" where
  "processAudioChunks env sessionId w =
     (case activeSessions w sessionId of
        None \<Rightarrow> Thrown (undefined_session ''audioChunks'') w
      | Some session \<Rightarrow>
          if length (audioChunks session) = 0 then Done w
          else
            (let combinedAudio = concat (audioChunks session);
                 base64Audio = Base64 combinedAudio;
                 w1 = update_session sessionId (\<lambda>s. s\<lparr>audioChunks := []\<rparr>) w;
                 parts = [InlineData (str ''audio/webm'') base64Audio];
                 (result, w2) =
                   (case geminiChat session of
                      None \<Rightarrow> (Inl (undefined_session ''sendMessage''), w1)
                    | Some c \<Rightarrow> sdk_call (sendMessage env c parts) (emit (SendMessage c parts) w1))
             in case result of
                  Inr transcription \<Rightarrow>
                    if transcription \<noteq> [] \<and> trim transcription \<noteq> [] then
                      (let w3 = ws_send (ws session)
                                  (JObj [(str ''type'', JStr (str ''transcription'')),
                                         (str ''text'', JStr (trim transcription))]) w2
                       in if targetLanguage session \<noteq> JStr (str ''en'')
                          then Done (translateAndSend env (trim transcription)
                                       (targetLanguage session) (ws session) w3)
                          else Done w3)
                    else Done w2
                | Inl error \<Rightarrow>
                    Done (ws_send (ws session)
                            (JObj [(str ''type'', JStr (str ''transcription'')),
                                   (str ''text'', JStr (str ''Audio processing error. Please try again.'')),
                                   (str ''error'', JBool True)])
                            (logger Err w2))))"

text \<open>The parameter \<open>command\<close> is there as in the source, which does not use it.\<close>

definition handleStartCommand :: "'e env \<Rightarrow> jsval \<Rightarrow> sid \<Rightarrow> 'e world \<Rightarrow> 'e world outcome" where
  "handleStartCommand env command sessionId w =
     (case activeSessions w sessionId of
        None \<Rightarrow> Thrown (undefined_session ''isTranscribing'') w
      | Some session \<Rightarrow>
          if isTranscribing session then Done (logger Info w)
          else
            (let w1 = logger Info w;
                 w2 = update_session sessionId
                        (\<lambda>s. s\<lparr>isTranscribing := True, audioChunks := []\<rparr>) w1;
                 failed = (\<lambda>error w'. Thrown error
                             (update_session sessionId (\<lambda>s. s\<lparr>isTranscribing := False\<rparr>)
                                (logger Err w')))
             in case sdk_call (getGenerativeModel env) w2 of
                  (Inl error, w3) \<Rightarrow> failed error w3
                | (Inr m, w3) \<Rightarrow>
                    (let w4 = update_session sessionId (\<lambda>s. s\<lparr>geminiModel := Some m\<rparr>) w3
                     in case sdk_call (startChat env m) w4 of
                          (Inl error, w5) \<Rightarrow> failed error w5
                        | (Inr c, w5) \<Rightarrow>
                            Done (ws_send (ws session)
                                    (JObj [(str ''type'', JStr (str ''started'')),
                                           (str ''message'', JStr (str ''Transcription started''))])
                                    (update_session sessionId
                                       (\<lambda>s. s\<lparr>geminiChat := Some c\<rparr>) w5)))))"

definition handleStopCommand :: "'e env \<Rightarrow> sid \<Rightarrow> 'e world \<Rightarrow> 'e world outcome" where
  "handleStopCommand env sessionId w =
     (case activeSessions w sessionId of
        None \<Rightarrow> Thrown (undefined_session ''isTranscribing'') w
      | Some session \<Rightarrow>
          if \<not> isTranscribing session then Done (logger Info w)
          else
            (let w1 = logger Info w;
                 w2 = (if length (audioChunks session) > 0
                       then (case processAudioChunks env sessionId w1 of
                               Done w' \<Rightarrow> w'
                             | Thrown error w' \<Rightarrow> logger Err w')
                       else w1);
                 w3 = update_session sessionId
                        (\<lambda>s. s\<lparr>isTranscribing := False, audioChunks := []\<rparr>) w2
             in Done (ws_send (ws session)
                        (JObj [(str ''type'', JStr (str ''stopped'')),
                               (str ''message'', JStr (str ''Transcription stopped''))]) w3)))"

definition handleSetLanguageCommand :: "jsval \<Rightarrow> sid \<Rightarrow> 'e world \<Rightarrow> 'e world outcome" where
  "handleSetLanguageCommand command sessionId w =
     (case get_prop command ''language'' of
        Inl error \<Rightarrow> Thrown error w
      | Inr language \<Rightarrow>
          if \<not> truthy language then Done (logger Err w)
          else
            (let w1 = logger Info w
             in case activeSessions w1 sessionId of
                  None \<Rightarrow> Thrown (undefined_session_set ''targetLanguage'') w1
                | Some session \<Rightarrow>
                    Done (ws_send (ws session)
                            (JObj [(str ''type'', JStr (str ''languageSet'')),
                                   (str ''language'', language)])
                            (update_session sessionId
                               (\<lambda>s. s\<lparr>targetLanguage := language\<rparr>) w1))))"

definition handleAudioData :: "'e env \<Rightarrow> buffer \<Rightarrow> sid \<Rightarrow> 'e world \<Rightarrow> 'e world outcome" where
  "handleAudioData env audioData sessionId w =
     (case activeSessions w sessionId of
        None \<Rightarrow> Thrown (undefined_session ''isTranscribing'') w
      | Some session \<Rightarrow>
          if \<not> isTranscribing session then Done (logger Info w)
          else
            (let w1 = update_session sessionId
                        (\<lambda>s. s\<lparr>audioChunks := audioChunks s @ [audioData]\<rparr>) w
             in if length (audioChunks session @ [audioData]) \<ge> 5
                then processAudioChunks env sessionId w1
                else Done w1))"

text \<open>
  A frame arrives either as a string or as a \<open>Buffer\<close>. The body of the \<open>try\<close> of
  \<open>handleMessage\<close> is \<open>handleMessage_try\<close>, and its branch for a command, from
  \<open>JSON.parse\<close> to the end of the \<open>switch\<close>, is \<open>handleCommand\<close>. The
  \<open>switch\<close> compares \<open>command.type\<close> with \<open>===\<close>.
\<close>

datatype ws_message = MString jsstr | MBuffer buffer

definition handleCommand :: "'e env \<Rightarrow> jsstr \<Rightarrow> sid \<Rightarrow> 'e world \<Rightarrow> 'e world outcome" where
  "handleCommand env text sessionId w =
     (case JSON_parse env text of
        Inl error \<Rightarrow> Thrown error w
      | Inr command \<Rightarrow>
          (case get_prop command ''type'' of
             Inl error \<Rightarrow> Thrown error w
           | Inr t \<Rightarrow>
               if t = JStr (str ''start'') then handleStartCommand env command sessionId w
               else if t = JStr (str ''stop'') then handleStopCommand env sessionId w
               else if t = JStr (str ''setLanguage'') then handleSetLanguageCommand command sessionId w
               else Done (logger Err w)))"

definition handleMessage_try :: "'e env \<Rightarrow> ws_message \<Rightarrow> sid \<Rightarrow> 'e world \<Rightarrow> 'e world outcome" where
  "handleMessage_try env msg sessionId w =
     (case msg of
        MString s \<Rightarrow> handleCommand env s sessionId w
      | MBuffer b \<Rightarrow>
          if startsWith (utf8 env b) (str ''{'')
          then handleCommand env (utf8 env b) sessionId w
          else handleAudioData env b sessionId w)"

definition handleMessage :: "'e env \<Rightarrow> ws_message \<Rightarrow> sid \<Rightarrow> 'e world \<Rightarrow> 'e world" where
  "handleMessage env msg sessionId w =
     (case activeSessions w sessionId of
        None \<Rightarrow> logger Err w
      | Some session \<Rightarrow>
          (case handleMessage_try env msg sessionId w of
             Done w' \<Rightarrow> w'
           | Thrown error w' \<Rightarrow>
               ws_send (ws session)
                 (JObj [(str ''type'', JStr (str ''error'')),
                        (str ''error'', JStr (message error))])
                 (logger Err w')))"

definition handleClose :: "sid \<Rightarrow> 'e world \<Rightarrow> 'e world" where
  "handleClose sessionId w =
     (let w1 = logger Info w
      in case activeSessions w1 sessionId of
           None \<Rightarrow> w1
         | Some session \<Rightarrow> w1\<lparr>activeSessions := (activeSessions w1)(sessionId := None)\<rparr>)"

definition handleError :: "js_error \<Rightarrow> sid \<Rightarrow> 'e world \<Rightarrow> 'e world" where
  "handleError error sessionId w = handleClose sessionId (logger Err w)"

text \<open>The events the \<open>ws\<close> library delivers, and a run of the server from its start.\<close>

datatype event =
    Connection socket sid
  | Message ws_message sid
  | Close sid
  | SocketError js_error sid

fun step :: "'e env \<Rightarrow> 'e world \<Rightarrow> event \<Rightarrow> 'e world" where
  "step env w (Connection sock sessionId) = handleConnection sock sessionId w"
| "step env w (Message msg sessionId) = handleMessage env msg sessionId w"
| "step env w (Close sessionId) = handleClose sessionId w"
| "step env w (SocketError error sessionId) = handleError error sessionId w"

definition run :: "'e env \<Rightarrow> 'e \<Rightarrow> event list \<Rightarrow> 'e world" where
  "run env e events = foldl (step env) (initial e) events"


text \<open>The world a handler leaves, whether it returned or threw.\<close>

fun world_of :: "'w outcome \<Rightarrow> 'w" where
  "world_of (Done w) = w"
| "world_of (Thrown error w) = w"


section \<open>The engine gateway: transcription with its fallback\<close>

text \<open>
  \<open>transcribeAudio\<close> of the Gemini Live service, of the Gemini service, and of the
  translators module that chains them. The gateway keeps no state of its own, so each
  function passes the engine's state along.
\<close>

definition live_fallback :: jsstr where
  "live_fallback =
     str ''This is a fallback transcription. The Gemini Live API encountered an error processing your audio.''"

definition gemini_fallback :: jsstr where
  "gemini_fallback =
     str ''This is a fallback transcription. The Gemini API encountered an error processing your audio.''"

definition transcription_directive :: jsstr where
  "transcription_directive =
     str ''Please transcribe the following audio accurately. Only provide the transcription, no additional text.''"

definition geminiLive_transcribeAudio ::
  "'e env \<Rightarrow> buffer \<Rightarrow> jsstr \<Rightarrow> 'e \<Rightarrow> (js_error + jsstr) \<times> 'e" where
  "geminiLive_transcribeAudio env audioData audioFormat e =
     (let attempt =
            (case getGenerativeModel env e of
               (Inl error, e1) \<Rightarrow> (Inl error, e1)
             | (Inr m, e1) \<Rightarrow>
                 (case startChat env m e1 of
                    (Inl error, e2) \<Rightarrow> (Inl error, e2)
                  | (Inr c, e2) \<Rightarrow>
                      sendMessage env c [InlineData audioFormat (Base64 audioData)] e2))
      in case attempt of
           (Inr text, e') \<Rightarrow> (Inr text, e')
         | (Inl error, e') \<Rightarrow>
             if NODE_ENV env \<noteq> Some (str ''production'') then (Inr live_fallback, e')
             else (Inl (Error (str ''Gemini Live API Error: '' @ message error)), e'))"

definition gemini_transcribeAudio ::
  "'e env \<Rightarrow> buffer \<Rightarrow> jsstr \<Rightarrow> 'e \<Rightarrow> (js_error + jsstr) \<times> 'e" where
  "gemini_transcribeAudio env audioData audioFormat e =
     (case getGenerativeModel env e of
        (Inl error, e1) \<Rightarrow>
          if NODE_ENV env \<noteq> Some (str ''production'') then (Inr gemini_fallback, e1)
          else (Inl (Error (str ''Gemini API Transcription Error: '' @ message error)), e1)
      | (Inr m, e1) \<Rightarrow>
          (case generateContent env m
                  (Contents [TextPart transcription_directive,
                             InlineData audioFormat (Base64 audioData)]) e1 of
             (Inr text, e2) \<Rightarrow> (Inr text, e2)
           | (Inl apiError, e2) \<Rightarrow> (Inr gemini_fallback, e2)))"

text \<open>
  \<open>audioData\<close> is \<open>None\<close> for an argument that is not a \<open>Buffer\<close>; an
  \<open>audioFormat\<close> that is missing is the empty string.
\<close>

definition transcribeAudio ::
  "'e env \<Rightarrow> buffer option \<Rightarrow> jsstr \<Rightarrow> 'e \<Rightarrow> (js_error + jsstr) \<times> 'e" where
  "transcribeAudio env audioData audioFormat e =
     (case audioData of
        None \<Rightarrow> (Inl (Error (str ''Audio data must be provided as a Buffer'')), e)
      | Some buf \<Rightarrow>
          if audioFormat = [] then (Inl (Error (str ''Audio format must be specified'')), e)
          else
            (case geminiLive_transcribeAudio env buf audioFormat e of
               (Inr transcription, e1) \<Rightarrow> (Inr (trim transcription), e1)
             | (Inl error, e1) \<Rightarrow>
                 (case gemini_transcribeAudio env buf audioFormat e1 of
                    (Inr fallbackTranscription, e2) \<Rightarrow> (Inr (trim fallbackTranscription), e2)
                  | (Inl error2, e2) \<Rightarrow> (Inl error2, e2))))"


section \<open>The streaming-text translation path\<close>

definition supportedLanguages :: "jsstr list" where
  "supportedLanguages = map str
     [''ar'', ''bn'', ''de'', ''en'', ''es'', ''fr'', ''gu'', ''hi'', ''id'', ''it'',
      ''ja'', ''kn'', ''ko'', ''ml'', ''mr'', ''nl'', ''pl'', ''pt'', ''ru'', ''ta'',
      ''te'', ''th'', ''tr'', ''vi'', ''cmn'']"

definition defaultSourceLang :: jsstr where
  "defaultSourceLang = str ''auto''"

definition isValidLanguage :: "jsval \<Rightarrow> bool" where
  "isValidLanguage langCode =
     (if \<not> truthy langCode then False else langCode \<in> set (map JStr supportedLanguages))"

text \<open>
  \<open>textBuffer.match(/[.!?]\s*$/)\<close>. The search tries every start position from the
  left. At a start position the class \<open>[.!?]\<close> must take one character; then \<open>\s*\<close>
  takes white space, and \<open>$\<close> (there is no \<open>m\<close> flag) holds at the end of the input
  only, so that the rest of the input has to be white space.
\<close>

fun spaces_to_end :: "jsstr \<Rightarrow> bool" where
  "spaces_to_end [] = True"
| "spaces_to_end (c # cs) = (is_space c \<and> spaces_to_end cs)"

fun sentence_regex_match :: "jsstr \<Rightarrow> bool" where
  "sentence_regex_match [] = False"
| "sentence_regex_match (c # cs) =
     (((c = 0x2E \<or> c = 0x21 \<or> c = 0x3F) \<and> spaces_to_end cs) \<or> sentence_regex_match cs)"

datatype chunk = StringChunk jsstr | BufferChunk buffer

definition chunk_toString :: "'e env \<Rightarrow> chunk \<Rightarrow> jsstr" where
  "chunk_toString env c = (case c of StringChunk s \<Rightarrow> s | BufferChunk b \<Rightarrow> utf8 env b)"

text \<open>
  What \<open>translateStream\<close> holds between events: the closure variable \<open>textBuffer\<close>, the
  engine's state, the prompts handed to \<open>gemini.generateContentStream\<close> so far, and what
  was done to \<open>outputStream\<close> (\<open>push(chunk)\<close>, \<open>emit('error', e)\<close>, \<open>push(null)\<close>).
\<close>

datatype stream_event = Push jsstr | EmitError js_error | PushNull

record 'e translation =
  textBuffer :: jsstr
  sdk :: 'e
  submitted :: "jsstr list"
  outputStream :: "stream_event list"

definition stream_prompt :: "'e env \<Rightarrow> jsval \<Rightarrow> jsval \<Rightarrow> jsstr \<Rightarrow> jsstr" where
  "stream_prompt env targetLang sourceLang text =
     (if sourceLang = JStr (str ''auto'') \<or> sourceLang = JStr defaultSourceLang
      then str ''Translate the following text to '' @ interpolate env targetLang
             @ str ''. Only respond with the translation, no explanations or additional text:''
             @ [0xA, 0xA] @ text
      else str ''Translate the following text from '' @ interpolate env sourceLang
             @ str '' to '' @ interpolate env targetLang
             @ str ''. Only respond with the translation, no explanations or additional text:''
             @ [0xA, 0xA] @ text)"

text \<open>
  \<open>generateContentStream\<close> of the Gemini service: it yields the chunks whose text is not
  empty and wraps whatever is thrown.
\<close>

definition gemini_generateContentStream ::
  "'e env \<Rightarrow> jsstr \<Rightarrow> 'e \<Rightarrow> (jsstr list \<times> js_error option) \<times> 'e" where
  "gemini_generateContentStream env prompt e =
     (let wrap = (\<lambda>error. Error (str ''Gemini API Streaming Error: '' @ message error))
      in case getGenerativeModel env e of
           (Inl error, e1) \<Rightarrow> (([], Some (wrap error)), e1)
         | (Inr m, e1) \<Rightarrow>
             (case generateContentStream env m prompt e1 of
                ((chunks, thrown), e2) \<Rightarrow>
                  ((filter (\<lambda>chunkText. chunkText \<noteq> []) chunks, map_option wrap thrown), e2)))"

text \<open>The \<open>try\<close> block that both event handlers of \<open>translateStream\<close> contain.\<close>

definition submit :: "'e env \<Rightarrow> jsval \<Rightarrow> jsval \<Rightarrow> jsstr \<Rightarrow> 'e translation \<Rightarrow> 'e translation" where
  "submit env targetLang sourceLang text st =
     (let prompt = stream_prompt env targetLang sourceLang text
      in case gemini_generateContentStream env prompt (sdk st) of
           ((chunks, thrown), e') \<Rightarrow>
             st\<lparr>sdk := e',
                submitted := submitted st @ [prompt],
                outputStream := outputStream st @ map Push chunks
                  @ (case thrown of None \<Rightarrow> [] | Some error \<Rightarrow> [EmitError error])\<rparr>)"

definition on_data :: "'e env \<Rightarrow> jsval \<Rightarrow> jsval \<Rightarrow> chunk \<Rightarrow> 'e translation \<Rightarrow> 'e translation" where
  "on_data env targetLang sourceLang c st =
     (let st1 = st\<lparr>textBuffer := textBuffer st @ chunk_toString env c\<rparr>
      in if sentence_regex_match (textBuffer st1)
         then (let textToTranslate = textBuffer st1
               in submit env targetLang sourceLang textToTranslate (st1\<lparr>textBuffer := []\<rparr>))
         else st1)"

definition on_end :: "'e env \<Rightarrow> jsval \<Rightarrow> jsval \<Rightarrow> 'e translation \<Rightarrow> 'e translation" where
  "on_end env targetLang sourceLang st =
     (let st1 = (if length (textBuffer st) > 0
                 then submit env targetLang sourceLang (textBuffer st) st
                 else st)
      in st1\<lparr>outputStream := outputStream st1 @ [PushNull]\<rparr>)"

definition on_error :: "js_error \<Rightarrow> 'e translation \<Rightarrow> 'e translation" where
  "on_error error st = st\<lparr>outputStream := outputStream st @ [EmitError error, PushNull]\<rparr>"

text \<open>
  \<open>translateStream\<close> itself: the checks, then the fresh state its handlers start from.
  \<open>readable\<close> says whether \<open>inputStream\<close> is an object with a function \<open>on\<close>; a
  \<open>sourceLang\<close> that is \<open>undefined\<close> takes the default.
\<close>

definition translateStream ::
  "'e env \<Rightarrow> bool \<Rightarrow> jsval \<Rightarrow> jsval \<Rightarrow> 'e \<Rightarrow> js_error + 'e translation" where
  "translateStream env readable targetLang sourceLangArg e =
     (let sourceLang = (if sourceLangArg = JUndefined then JStr defaultSourceLang else sourceLangArg)
      in if \<not> readable then Inl (Error (str ''Input must be a readable stream''))
         else if \<not> isValidLanguage targetLang
         then Inl (Error (str ''Target language '' @ [0x27] @ interpolate env targetLang @ [0x27]
                            @ str '' is not supported''))
         else if sourceLang \<noteq> JStr (str ''auto'') \<and> \<not> isValidLanguage sourceLang
         then Inl (Error (str ''Source language '' @ [0x27] @ interpolate env sourceLang @ [0x27]
                            @ str '' is not supported''))
         else Inr \<lparr>textBuffer = [], sdk = e, submitted = [], outputStream = []\<rparr>)"

text \<open>The input stream delivers its chunks, then its end.\<close>

definition feed ::
  "'e env \<Rightarrow> jsval \<Rightarrow> jsval \<Rightarrow> chunk list \<Rightarrow> 'e translation \<Rightarrow> 'e translation" where
  "feed env targetLang sourceLang chunks st =
     foldl (\<lambda>st' c. on_data env targetLang sourceLang c st') st chunks"



section \<open>Invariants of a run\<close>

text \<open>
  Between two events a session holds fewer than five fragments, and a session that is
  transcribing has its chat. Every transcription request in the trace carries exactly one
  inline part, of MIME type \<open>audio/webm\<close>.
\<close>

definition session_ok :: "session \<Rightarrow> bool" where
  "session_ok s = (length (audioChunks s) < 5 \<and> (isTranscribing s \<longrightarrow> geminiChat s \<noteq> None))"

definition world_ok :: "'e world \<Rightarrow> bool" where
  "world_ok w = (\<forall>sessionId s. activeSessions w sessionId = Some s \<longrightarrow> session_ok s)"

fun webm_request :: "effect \<Rightarrow> bool" where
  "webm_request (SendMessage c parts) =
     (case parts of [InlineData mt payload] \<Rightarrow> mt = str ''audio/webm'' | _ \<Rightarrow> False)"
| "webm_request _ = True"


section \<open>A scripted environment for the examples\<close>

text \<open>
  A small environment on which the theorems below are instantiated. Bytes below 128
  decode to themselves; the parser knows a handful of frames; the engine counts its calls
  and answers by the first byte of the audio it is sent: \<open>0xFF\<close> makes the call fail,
  \<open>0x00\<close> gives a blank transcript, anything else gives a padded sentence.
\<close>

definition demo_utf8 :: "buffer \<Rightarrow> jsstr" where
  "demo_utf8 b = map (\<lambda>x. if x < 0x80 then ucast x else 0xFFFD) b"

definition demo_parse :: "jsstr \<Rightarrow> js_error + jsval" where
  \<open>demo_parse text =
     (if text = str ''{"type":"start","format":"audio/ogg"}''
      then Inr (JObj [(str ''type'', JStr (str ''start'')), (str ''format'', JStr (str ''audio/ogg''))])
      else if text = str ''{"type":"start","format":"audio/webm"}''
      then Inr (JObj [(str ''type'', JStr (str ''start'')), (str ''format'', JStr (str ''audio/webm''))])
      else if text = str ''{"type":"stop"}''
      then Inr (JObj [(str ''type'', JStr (str ''stop''))])
      else if text = str ''{"type":"setLanguage","language":"es"}''
      then Inr (JObj [(str ''type'', JStr (str ''setLanguage'')), (str ''language'', JStr (str ''es''))])
      else if text = str ''{"type":"ping"}''
      then Inr (JObj [(str ''type'', JStr (str ''ping''))])
      else Inl (SyntaxError (str ''Unexpected token'')))\<close>

definition demo_sendMessage :: "chat \<Rightarrow> part list \<Rightarrow> nat \<Rightarrow> (js_error + jsstr) \<times> nat" where
  "demo_sendMessage c parts n =
     (case parts of
        [InlineData mt (Base64 (b # bs))] \<Rightarrow>
          if b = 0xFF then (Inl (Error (str ''quota exceeded'')), Suc n)
          else if b = 0 then (Inr (str ''   ''), Suc n)
          else (Inr (str '' hello world ''), Suc n)
      | _ \<Rightarrow> (Inl (Error (str ''bad request'')), Suc n))"

definition demo_env :: "nat env" where
  "demo_env =
     \<lparr>NODE_ENV = None,
      utf8 = demo_utf8,
      JSON_parse = demo_parse,
      ToString = (\<lambda>v. str ''[object Object]''),
      getGenerativeModel = (\<lambda>n. (Inr 7, Suc n)),
      startChat = (\<lambda>m n. (Inr 3, Suc n)),
      sendMessage = demo_sendMessage,
      generateContent = (\<lambda>m request n. (Inr (str '' hola mundo ''), Suc n)),
      generateContentStream = (\<lambda>m prompt n. (([str ''hola'', [], str '' mundo''], None), Suc n))\<rparr>"

text \<open>The same environment in production mode with every engine request failing.\<close>

definition outage_env :: "nat env" where
  "outage_env =
     demo_env\<lparr>NODE_ENV := Some (str ''production''),
              sendMessage := (\<lambda>c parts n. (Inl (Error (str ''fetch failed'')), Suc n)),
              generateContent := (\<lambda>m request n. (Inl (Error (str ''fetch failed'')), Suc n))\<rparr>"

text \<open>The first environment with every translation request failing.\<close>

definition untranslated_env :: "nat env" where
  "untranslated_env =
     demo_env\<lparr>generateContent := (\<lambda>m request n. (Inl (Error (str ''fetch failed'')), Suc n))\<rparr>"

definition s1 :: sid where
  "s1 = str ''k3x9''"

text \<open>One session, connected on socket 1: idle, and transcribing with a given buffer.\<close>

definition demo_session :: session where
  "demo_session =
     \<lparr>ws = 1, targetLanguage = JStr (str ''en''), audioChunks = [],
      isTranscribing = False, geminiModel = None, geminiStream = None, geminiChat = None\<rparr>"

definition demo_idle :: "nat world" where
  "demo_idle = \<lparr>activeSessions = [s1 \<mapsto> demo_session], engine = 0, trace = []\<rparr>"

definition demo_live :: "jsval \<Rightarrow> buffer list \<Rightarrow> session" where
  "demo_live lang chunks =
     demo_session\<lparr>targetLanguage := lang, audioChunks := chunks,
       isTranscribing := True, geminiModel := Some 7, geminiChat := Some 3\<rparr>"

definition demo_transcribing :: "jsval \<Rightarrow> buffer list \<Rightarrow> nat world" where
  "demo_transcribing lang chunks =
     \<lparr>activeSessions = [s1 \<mapsto> demo_live lang chunks], engine = 2, trace = []\<rparr>"

definition en :: jsval where
  "en = JStr (str ''en'')"

definition es :: jsval where
  "es = JStr (str ''es'')"


text \<open>
  A client connects, starts transcription asking for \<open>audio/ogg\<close>, and sends four
  fragments.
\<close>

definition start_ogg :: jsstr where
  \<open>start_ogg = str ''{"type":"start","format":"audio/ogg"}''\<close>

definition start_webm :: jsstr where
  \<open>start_webm = str ''{"type":"start","format":"audio/webm"}''\<close>

definition ping :: jsstr where
  \<open>ping = str ''{"type":"ping"}''\<close>

definition demo_events :: "event list" where
  "demo_events =
     [Connection 1 s1, Message (MString start_ogg) s1,
      Message (MBuffer [1]) s1, Message (MBuffer [2]) s1,
      Message (MBuffer [3]) s1, Message (MBuffer [4]) s1]"


text \<open>A translation stream with a given buffer and nothing handed over yet.\<close>

definition demo_stream :: "jsstr \<Rightarrow> nat translation" where
  "demo_stream buf = \<lparr>textBuffer = buf, sdk = 0, submitted = [], outputStream = []\<rparr>"

definition auto_lang :: jsval where
  "auto_lang = JStr (str ''auto'')"


section \<open>Basic facts about the world\<close>

lemma emit_simps [simp]:
  "activeSessions (emit x w) = activeSessions w"
  "engine (emit x w) = engine w"
  "trace (emit x w) = trace w @ [x]"
  by (simp_all add: emit_def)

lemma logger_simps [simp]:
  "activeSessions (logger l w) = activeSessions w"
  "engine (logger l w) = engine w"
  "trace (logger l w) = trace w @ [Log l]"
  by (simp_all add: logger_def)

lemma ws_send_simps [simp]:
  "activeSessions (ws_send sock obj w) = activeSessions w"
  "engine (ws_send sock obj w) = engine w"
  "trace (ws_send sock obj w) = trace w @ [WsSend sock obj]"
  by (simp_all add: ws_send_def)

lemma update_session_simps [simp]:
  "engine (update_session sessionId f w) = engine w"
  "trace (update_session sessionId f w) = trace w"
  by (simp_all add: update_session_def split: option.splits)

lemma activeSessions_update_session:
  "activeSessions (update_session sessionId f w) =
     (case activeSessions w sessionId of
        None \<Rightarrow> activeSessions w
      | Some s \<Rightarrow> (activeSessions w)(sessionId \<mapsto> f s))"
  by (simp add: update_session_def split: option.splits)




section \<open>A flush whose engine call fails\<close>

text \<open>
  C1. When a flush of a session's non-empty buffer reaches the engine and the engine's
  transcription call fails, \<open>processAudioChunks\<close> returns normally. It has sent the
  request, logged the error and sent to the session's socket a \<open>transcription\<close> message
  with the fixed placeholder text and \<open>error: true\<close>, and nothing else: no socket is
  closed. The session is still in the registry, with its buffer emptied and every other
  field as before, and a binary frame that follows while it transcribes is buffered.
\<close>

theorem processAudioChunks_engine_failure:
  assumes "activeSessions w sessionId = Some s"
    and "audioChunks s \<noteq> []"
    and "geminiChat s = Some c"
    and "sendMessage env c [InlineData (str ''audio/webm'') (Base64 (concat (audioChunks s)))]
           (engine w) = (Inl error, e')"
  shows "\<exists>w'. processAudioChunks env sessionId w = Done w'
       \<and> trace w' = trace w @
           [SendMessage c [InlineData (str ''audio/webm'') (Base64 (concat (audioChunks s)))],
            Log Err,
            WsSend (ws s)
              (JObj [(str ''type'', JStr (str ''transcription'')),
                     (str ''text'', JStr (str ''Audio processing error. Please try again.'')),
                     (str ''error'', JBool True)])]
       \<and> activeSessions w' = (activeSessions w)(sessionId \<mapsto> s\<lparr>audioChunks := []\<rparr>)
       \<and> engine w' = e'
       \<and> (\<forall>b. isTranscribing s \<and> \<not> startsWith (utf8 env b) (str ''{'') \<longrightarrow>
              activeSessions (handleMessage env (MBuffer b) sessionId w') sessionId
                = Some (s\<lparr>audioChunks := [b]\<rparr>))"
proof -
  let ?parts = "[InlineData (str ''audio/webm'') (Base64 (concat (audioChunks s)))]"
  let ?w1 = "emit (SendMessage c ?parts) (update_session sessionId (\<lambda>s. s\<lparr>audioChunks := []\<rparr>) w)"
  let ?w' = "ws_send (ws s)
              (JObj [(str ''type'', JStr (str ''transcription'')),
                     (str ''text'', JStr (str ''Audio processing error. Please try again.'')),
                     (str ''error'', JBool True)])
              (logger Err (?w1\<lparr>engine := e'\<rparr>))"
  have call: "sdk_call (sendMessage env c ?parts) ?w1 = (Inl error, ?w1\<lparr>engine := e'\<rparr>)"
    using assms(4) by (simp add: sdk_call_def)
  have run: "processAudioChunks env sessionId w = Done ?w'"
    using assms(1-3) call by (simp add: processAudioChunks_def Let_def)
  have sessions: "activeSessions ?w' = (activeSessions w)(sessionId \<mapsto> s\<lparr>audioChunks := []\<rparr>)"
    using assms(1) by (simp add: activeSessions_update_session)
  have next_frame: "activeSessions (handleMessage env (MBuffer b) sessionId ?w') sessionId
        = Some (s\<lparr>audioChunks := [b]\<rparr>)"
    if "isTranscribing s" "\<not> startsWith (utf8 env b) (str ''{'')" for b
    using that sessions
    by (simp add: handleMessage_def handleMessage_try_def handleAudioData_def
        activeSessions_update_session)
  show ?thesis
    using run sessions next_frame by (intro exI[of _ ?w']) simp
qed


theorem processAudioChunks_engine_failure_witness:
  "activeSessions (demo_transcribing en [[0xFF, 1], [2]]) s1 = Some (demo_live en [[0xFF, 1], [2]])
   \<and> audioChunks (demo_live en [[0xFF, 1], [2]]) \<noteq> []
   \<and> geminiChat (demo_live en [[0xFF, 1], [2]]) = Some 3
   \<and> sendMessage demo_env 3
         [InlineData (str ''audio/webm'') (Base64 (concat (audioChunks (demo_live en [[0xFF, 1], [2]]))))]
         (engine (demo_transcribing en [[0xFF, 1], [2]]))
       = (Inl (Error (str ''quota exceeded'')), 3)
   \<and> trace (world_of (processAudioChunks demo_env s1 (demo_transcribing en [[0xFF, 1], [2]])))
       = [SendMessage 3 [InlineData (str ''audio/webm'') (Base64 [0xFF, 1, 2])],
          Log Err,
          WsSend 1
            (JObj [(str ''type'', JStr (str ''transcription'')),
                   (str ''text'', JStr (str ''Audio processing error. Please try again.'')),
                   (str ''error'', JBool True)])]
   \<and> activeSessions (world_of (processAudioChunks demo_env s1 (demo_transcribing en [[0xFF, 1], [2]]))) s1
       = Some (demo_live en [])"
proof -
  let ?w = "demo_transcribing en [[0xFF, 1], [2]]"
  let ?s = "demo_live en [[0xFF, 1], [2]]"
  have h1: "activeSessions ?w s1 = Some ?s"
    by (simp add: demo_transcribing_def)
  have h2: "audioChunks ?s \<noteq> []"
    by (simp add: demo_live_def)
  have h3: "geminiChat ?s = Some 3"
    by (simp add: demo_live_def)
  have h4: "sendMessage demo_env 3
         [InlineData (str ''audio/webm'') (Base64 (concat (audioChunks ?s)))] (engine ?w)
       = (Inl (Error (str ''quota exceeded'')), 3)"
    by (simp add: demo_env_def demo_sendMessage_def demo_live_def demo_transcribing_def)
  from processAudioChunks_engine_failure [OF h1 h2 h3 h4]
  obtain w' where "processAudioChunks demo_env s1 ?w = Done w'"
    and "trace w' = trace ?w @
           [SendMessage 3 [InlineData (str ''audio/webm'') (Base64 (concat (audioChunks ?s)))],
            Log Err,
            WsSend (ws ?s)
              (JObj [(str ''type'', JStr (str ''transcription'')),
                     (str ''text'', JStr (str ''Audio processing error. Please try again.'')),
                     (str ''error'', JBool True)])]"
    and "activeSessions w' = (activeSessions ?w)(s1 \<mapsto> ?s\<lparr>audioChunks := []\<rparr>)"
    by blast
  then have "trace (world_of (processAudioChunks demo_env s1 ?w))
       = [SendMessage 3 [InlineData (str ''audio/webm'') (Base64 [0xFF, 1, 2])],
          Log Err,
          WsSend 1
            (JObj [(str ''type'', JStr (str ''transcription'')),
                   (str ''text'', JStr (str ''Audio processing error. Please try again.'')),
                   (str ''error'', JBool True)])]"
    and "activeSessions (world_of (processAudioChunks demo_env s1 ?w)) s1 = Some (demo_live en [])"
    by (simp_all add: demo_transcribing_def demo_live_def demo_session_def)
  with h1 h2 h3 h4 show ?thesis by blast
qed


section \<open>A flush whose engine call succeeds\<close>

lemma trim_Nil [simp]: "trim [] = []"
  by (simp add: trim_def)

text \<open>
  C3, as the claim states it, fails twice. The engine answers a flush with a transcript of
  three blanks: the flush succeeds, and nothing at all is sent to the client although the
  session's target language is \<open>es\<close>. And the engine answers a flush with a sentence
  while the translation request fails: the \<open>translation\<close> message that is sent carries
  no translated text but a fixed placeholder, flagged \<open>error: true\<close>.
\<close>

theorem processAudioChunks_blank_counterexample:
  "sendMessage demo_env 3 [InlineData (str ''audio/webm'') (Base64 [0, 1])] 2
     = (Inr (str ''   ''), 3)
   \<and> processAudioChunks demo_env s1 (demo_transcribing es [[0], [1]])
     = Done \<lparr>activeSessions = [s1 \<mapsto> demo_live es []], engine = 3,
             trace = [SendMessage 3 [InlineData (str ''audio/webm'') (Base64 [0, 1])]]\<rparr>
   \<and> sendMessage untranslated_env 3 [InlineData (str ''audio/webm'') (Base64 [1, 2])] 2
     = (Inr (str '' hello world ''), 3)
   \<and> trace (world_of (processAudioChunks untranslated_env s1 (demo_transcribing es [[1], [2]])))
     = [SendMessage 3 [InlineData (str ''audio/webm'') (Base64 [1, 2])],
        WsSend 1 (JObj [(str ''type'', JStr (str ''transcription'')),
                        (str ''text'', JStr (str ''hello world''))]),
        GenerateContent (PromptText (translate_prompt untranslated_env es (str ''hello world''))),
        Log Err,
        WsSend 1 (JObj [(str ''type'', JStr (str ''translation'')),
                        (str ''text'', JStr (str ''Translation error. Please try again.'')),
                        (str ''sourceText'', JStr (str ''hello world'')),
                        (str ''targetLanguage'', es),
                        (str ''error'', JBool True)])]"
proof -
  have t: "trim (str '' hello world '') = str ''hello world''"
    by (simp add: trim_def is_space_def str_def)
  have ne: "str ''hello world'' \<noteq> []" "str '' hello world '' \<noteq> []"
    by (simp_all add: str_def)
  have lang: "es \<noteq> JStr (str ''en'')"
    by (simp add: es_def str_def)
  have blank: "processAudioChunks demo_env s1 (demo_transcribing es [[0], [1]])
     = Done \<lparr>activeSessions = [s1 \<mapsto> demo_live es []], engine = 3,
             trace = [SendMessage 3 [InlineData (str ''audio/webm'') (Base64 [0, 1])]]\<rparr>"
    by (simp add: processAudioChunks_def demo_transcribing_def demo_live_def demo_session_def
      demo_env_def demo_sendMessage_def update_session_def sdk_call_def emit_def
      trim_def is_space_def str_def)
  have failed: "trace (world_of (processAudioChunks untranslated_env s1 (demo_transcribing es [[1], [2]])))
     = [SendMessage 3 [InlineData (str ''audio/webm'') (Base64 [1, 2])],
        WsSend 1 (JObj [(str ''type'', JStr (str ''transcription'')),
                        (str ''text'', JStr (str ''hello world''))]),
        GenerateContent (PromptText (translate_prompt untranslated_env es (str ''hello world''))),
        Log Err,
        WsSend 1 (JObj [(str ''type'', JStr (str ''translation'')),
                        (str ''text'', JStr (str ''Translation error. Please try again.'')),
                        (str ''sourceText'', JStr (str ''hello world'')),
                        (str ''targetLanguage'', es),
                        (str ''error'', JBool True)])]"
    using t ne lang
    by (simp add: processAudioChunks_def translateAndSend_def demo_transcribing_def demo_live_def
      demo_session_def untranslated_env_def demo_env_def demo_sendMessage_def update_session_def
      sdk_call_def Let_def)
  show ?thesis
    using blank failed
    by (simp add: demo_env_def untranslated_env_def demo_sendMessage_def)
qed


text \<open>
  C3, amended. After a flush whose engine call returns a transcript: if the trimmed
  transcript is empty nothing is sent. Otherwise a \<open>transcription\<close> message with the
  trimmed transcript is sent first, in every case; that is all when the target language
  is the string \<open>en\<close>. When it is not, translation is invoked and a \<open>translation\<close>
  message follows with the trimmed transcript as \<open>sourceText\<close> and the target
  language: its text is the trimmed translation when the translation request succeeds,
  and the fixed placeholder, with \<open>error: true\<close>, when the request or the creation of
  the model before it fails.
\<close>

theorem processAudioChunks_success:
  assumes "activeSessions w sessionId = Some s"
    and "audioChunks s \<noteq> []"
    and "geminiChat s = Some c"
    and "sendMessage env c [InlineData (str ''audio/webm'') (Base64 (concat (audioChunks s)))]
           (engine w) = (Inr transcription, e1)"
  shows "(trim transcription = [] \<longrightarrow>
            trace (world_of (processAudioChunks env sessionId w)) = trace w @
              [SendMessage c [InlineData (str ''audio/webm'') (Base64 (concat (audioChunks s)))]])
       \<and> (trim transcription \<noteq> [] \<longrightarrow>
            (\<exists>rest. trace (world_of (processAudioChunks env sessionId w)) = trace w @
              [SendMessage c [InlineData (str ''audio/webm'') (Base64 (concat (audioChunks s)))],
               WsSend (ws s) (JObj [(str ''type'', JStr (str ''transcription'')),
                                    (str ''text'', JStr (trim transcription))])] @ rest))
       \<and> (trim transcription \<noteq> [] \<and> targetLanguage s = JStr (str ''en'') \<longrightarrow>
            trace (world_of (processAudioChunks env sessionId w)) = trace w @
              [SendMessage c [InlineData (str ''audio/webm'') (Base64 (concat (audioChunks s)))],
               WsSend (ws s) (JObj [(str ''type'', JStr (str ''transcription'')),
                                    (str ''text'', JStr (trim transcription))])])
       \<and> (\<forall>m e2 translation e3.
            trim transcription \<noteq> [] \<and> targetLanguage s \<noteq> JStr (str ''en'')
            \<and> getGenerativeModel env e1 = (Inr m, e2)
            \<and> generateContent env m
                 (PromptText (translate_prompt env (targetLanguage s) (trim transcription))) e2
                = (Inr translation, e3) \<longrightarrow>
            trace (world_of (processAudioChunks env sessionId w)) = trace w @
              [SendMessage c [InlineData (str ''audio/webm'') (Base64 (concat (audioChunks s)))],
               WsSend (ws s) (JObj [(str ''type'', JStr (str ''transcription'')),
                                    (str ''text'', JStr (trim transcription))]),
               GenerateContent
                 (PromptText (translate_prompt env (targetLanguage s) (trim transcription))),
               WsSend (ws s) (JObj [(str ''type'', JStr (str ''translation'')),
                                    (str ''text'', JStr (trim translation)),
                                    (str ''sourceText'', JStr (trim transcription)),
                                    (str ''targetLanguage'', targetLanguage s)])])
       \<and> (\<forall>m e2 error e3.
            trim transcription \<noteq> [] \<and> targetLanguage s \<noteq> JStr (str ''en'')
            \<and> getGenerativeModel env e1 = (Inr m, e2)
            \<and> generateContent env m
                 (PromptText (translate_prompt env (targetLanguage s) (trim transcription))) e2
                = (Inl error, e3) \<longrightarrow>
            trace (world_of (processAudioChunks env sessionId w)) = trace w @
              [SendMessage c [InlineData (str ''audio/webm'') (Base64 (concat (audioChunks s)))],
               WsSend (ws s) (JObj [(str ''type'', JStr (str ''transcription'')),
                                    (str ''text'', JStr (trim transcription))]),
               GenerateContent
                 (PromptText (translate_prompt env (targetLanguage s) (trim transcription))),
               Log Err,
               WsSend (ws s) (JObj [(str ''type'', JStr (str ''translation'')),
                                    (str ''text'', JStr (str ''Translation error. Please try again.'')),
                                    (str ''sourceText'', JStr (trim transcription)),
                                    (str ''targetLanguage'', targetLanguage s),
                                    (str ''error'', JBool True)])])
       \<and> (\<forall>error e2.
            trim transcription \<noteq> [] \<and> targetLanguage s \<noteq> JStr (str ''en'')
            \<and> getGenerativeModel env e1 = (Inl error, e2) \<longrightarrow>
            trace (world_of (processAudioChunks env sessionId w)) = trace w @
              [SendMessage c [InlineData (str ''audio/webm'') (Base64 (concat (audioChunks s)))],
               WsSend (ws s) (JObj [(str ''type'', JStr (str ''transcription'')),
                                    (str ''text'', JStr (trim transcription))]),
               Log Err,
               WsSend (ws s) (JObj [(str ''type'', JStr (str ''translation'')),
                                    (str ''text'', JStr (str ''Translation error. Please try again.'')),
                                    (str ''sourceText'', JStr (trim transcription)),
                                    (str ''targetLanguage'', targetLanguage s),
                                    (str ''error'', JBool True)])])"
proof -
  let ?parts = "[InlineData (str ''audio/webm'') (Base64 (concat (audioChunks s)))]"
  let ?said = "WsSend (ws s) (JObj [(str ''type'', JStr (str ''transcription'')),
                                    (str ''text'', JStr (trim transcription))])"
  let ?prompt = "PromptText (translate_prompt env (targetLanguage s) (trim transcription))"
  let ?flagged = "WsSend (ws s) (JObj [(str ''type'', JStr (str ''translation'')),
                                    (str ''text'', JStr (str ''Translation error. Please try again.'')),
                                    (str ''sourceText'', JStr (trim transcription)),
                                    (str ''targetLanguage'', targetLanguage s),
                                    (str ''error'', JBool True)])"
  let ?w1 = "emit (SendMessage c ?parts) (update_session sessionId (\<lambda>s. s\<lparr>audioChunks := []\<rparr>) w)"
  let ?w' = "world_of (processAudioChunks env sessionId w)"
  have call: "sdk_call (sendMessage env c ?parts) ?w1 = (Inr transcription, ?w1\<lparr>engine := e1\<rparr>)"
    using assms(4) by (simp add: sdk_call_def)
  have blank: "trace ?w' = trace w @ [SendMessage c ?parts]"
    if "trim transcription = []"
    using that assms(1-3) call by (auto simp: processAudioChunks_def Let_def)
  have english: "trace ?w' = trace w @ [SendMessage c ?parts, ?said]"
    if "trim transcription \<noteq> []" "targetLanguage s = JStr (str ''en'')"
    using that assms(1-3) call by (auto simp: processAudioChunks_def Let_def)
  have translated: "trace ?w' = trace w @
       [SendMessage c ?parts, ?said, GenerateContent ?prompt,
        WsSend (ws s) (JObj [(str ''type'', JStr (str ''translation'')),
                             (str ''text'', JStr (trim translation)),
                             (str ''sourceText'', JStr (trim transcription)),
                             (str ''targetLanguage'', targetLanguage s)])]"
    if "trim transcription \<noteq> []" "targetLanguage s \<noteq> JStr (str ''en'')"
      "getGenerativeModel env e1 = (Inr m, e2)"
      "generateContent env m ?prompt e2 = (Inr translation, e3)"
    for m e2 translation e3
    using that assms(1-3) call
    by (auto simp: processAudioChunks_def translateAndSend_def sdk_call_def Let_def)
  have refused: "trace ?w' = trace w @
       [SendMessage c ?parts, ?said, GenerateContent ?prompt, Log Err, ?flagged]"
    if "trim transcription \<noteq> []" "targetLanguage s \<noteq> JStr (str ''en'')"
      "getGenerativeModel env e1 = (Inr m, e2)"
      "generateContent env m ?prompt e2 = (Inl error, e3)"
    for m e2 error e3
    using that assms(1-3) call
    by (auto simp: processAudioChunks_def translateAndSend_def sdk_call_def Let_def)
  have no_model: "trace ?w' = trace w @ [SendMessage c ?parts, ?said, Log Err, ?flagged]"
    if "trim transcription \<noteq> []" "targetLanguage s \<noteq> JStr (str ''en'')"
      "getGenerativeModel env e1 = (Inl error, e2)"
    for error e2
    using that assms(1-3) call
    by (auto simp: processAudioChunks_def translateAndSend_def sdk_call_def Let_def)
  have always: "\<exists>rest. trace ?w' = trace w @ [SendMessage c ?parts, ?said] @ rest"
    if ne: "trim transcription \<noteq> []"
  proof (cases "targetLanguage s = JStr (str ''en'')")
    case True
    from english [OF ne True] show ?thesis by simp
  next
    case False
    obtain r1 e2 where model: "getGenerativeModel env e1 = (r1, e2)"
      by (cases "getGenerativeModel env e1")
    show ?thesis
    proof (cases r1)
      case (Inl error)
      from no_model [OF ne False model [unfolded Inl]] show ?thesis by simp
    next
      case (Inr m)
      obtain r2 e3 where request: "generateContent env m ?prompt e2 = (r2, e3)"
        by (cases "generateContent env m ?prompt e2")
      show ?thesis
      proof (cases r2)
        case (Inl error)
        from refused [OF ne False model [unfolded Inr] request [unfolded Inl]]
        show ?thesis by simp
      next
        case Inr2: (Inr translation)
        from translated [OF ne False model [unfolded Inr] request [unfolded Inr2]]
        show ?thesis by simp
      qed
    qed
  qed
  show ?thesis
    using blank always english translated refused no_model by blast
qed

theorem processAudioChunks_success_witness:
  "activeSessions (demo_transcribing es [[1], [2]]) s1 = Some (demo_live es [[1], [2]])
   \<and> audioChunks (demo_live es [[1], [2]]) \<noteq> []
   \<and> geminiChat (demo_live es [[1], [2]]) = Some 3
   \<and> sendMessage demo_env 3
         [InlineData (str ''audio/webm'') (Base64 (concat (audioChunks (demo_live es [[1], [2]]))))]
         (engine (demo_transcribing es [[1], [2]]))
       = (Inr (str '' hello world ''), 3)
   \<and> trim (str '' hello world '') = str ''hello world''
   \<and> targetLanguage (demo_live es [[1], [2]]) \<noteq> JStr (str ''en'')
   \<and> getGenerativeModel demo_env 3 = (Inr 7, 4)
   \<and> generateContent demo_env 7
        (PromptText (translate_prompt demo_env es (str ''hello world''))) 4
       = (Inr (str '' hola mundo ''), 5)
   \<and> trace (world_of (processAudioChunks demo_env s1 (demo_transcribing es [[1], [2]])))
       = [SendMessage 3 [InlineData (str ''audio/webm'') (Base64 [1, 2])],
          WsSend 1 (JObj [(str ''type'', JStr (str ''transcription'')),
                          (str ''text'', JStr (str ''hello world''))]),
          GenerateContent (PromptText (translate_prompt demo_env es (str ''hello world''))),
          WsSend 1 (JObj [(str ''type'', JStr (str ''translation'')),
                          (str ''text'', JStr (str ''hola mundo'')),
                          (str ''sourceText'', JStr (str ''hello world'')),
                          (str ''targetLanguage'', es)])]"
proof -
  let ?w = "demo_transcribing es [[1], [2]]"
  let ?s = "demo_live es [[1], [2]]"
  have h1: "activeSessions ?w s1 = Some ?s"
    by (simp add: demo_transcribing_def)
  have h2: "audioChunks ?s \<noteq> []"
    by (simp add: demo_live_def)
  have h3: "geminiChat ?s = Some 3"
    by (simp add: demo_live_def)
  have h4: "sendMessage demo_env 3
         [InlineData (str ''audio/webm'') (Base64 (concat (audioChunks ?s)))] (engine ?w)
       = (Inr (str '' hello world ''), 3)"
    by (simp add: demo_env_def demo_sendMessage_def demo_live_def demo_transcribing_def)
  have t1: "trim (str '' hello world '') = str ''hello world''"
    by (simp add: trim_def is_space_def str_def)
  have t2: "trim (str '' hola mundo '') = str ''hola mundo''"
    by (simp add: trim_def is_space_def str_def)
  have h5: "targetLanguage ?s \<noteq> JStr (str ''en'')"
    by (simp add: demo_live_def es_def str_def)
  have h6: "getGenerativeModel demo_env 3 = (Inr 7, 4)"
    by (simp add: demo_env_def)
  have h7: "generateContent demo_env 7
        (PromptText (translate_prompt demo_env es (str ''hello world''))) 4
       = (Inr (str '' hola mundo ''), 5)"
    by (simp add: demo_env_def)
  have ne: "trim (str '' hello world '') \<noteq> []"
    by (simp add: t1) (simp add: str_def)
  have lang: "targetLanguage ?s = es" and sock: "ws ?s = 1"
    and chunks: "concat (audioChunks ?s) = [1, 2]" and tr: "trace ?w = []"
    by (simp_all add: demo_live_def demo_session_def demo_transcribing_def)
  have h7': "generateContent demo_env 7
        (PromptText (translate_prompt demo_env (targetLanguage ?s) (trim (str '' hello world '')))) 4
       = (Inr (str '' hola mundo ''), 5)"
    by (simp add: demo_env_def)
  from processAudioChunks_success [OF h1 h2 h3 h4] ne h5 h6 h7'
  have "trace (world_of (processAudioChunks demo_env s1 ?w)) = trace ?w @
          [SendMessage 3 [InlineData (str ''audio/webm'') (Base64 (concat (audioChunks ?s)))],
           WsSend (ws ?s) (JObj [(str ''type'', JStr (str ''transcription'')),
                                 (str ''text'', JStr (trim (str '' hello world '')))]),
           GenerateContent
             (PromptText (translate_prompt demo_env (targetLanguage ?s) (trim (str '' hello world '')))),
           WsSend (ws ?s) (JObj [(str ''type'', JStr (str ''translation'')),
                                 (str ''text'', JStr (trim (str '' hola mundo ''))),
                                 (str ''sourceText'', JStr (trim (str '' hello world ''))),
                                 (str ''targetLanguage'', targetLanguage ?s)])]"
    by blast
  then have "trace (world_of (processAudioChunks demo_env s1 ?w))
       = [SendMessage 3 [InlineData (str ''audio/webm'') (Base64 [1, 2])],
          WsSend 1 (JObj [(str ''type'', JStr (str ''transcription'')),
                          (str ''text'', JStr (str ''hello world''))]),
          GenerateContent (PromptText (translate_prompt demo_env es (str ''hello world''))),
          WsSend 1 (JObj [(str ''type'', JStr (str ''translation'')),
                          (str ''text'', JStr (str ''hola mundo'')),
                          (str ''sourceText'', JStr (str ''hello world'')),
                          (str ''targetLanguage'', es)])]"
    by (simp only: t1 t2 lang sock chunks tr append_Nil)
  with h1 h2 h3 h4 t1 h5 h6 h7 show ?thesis by blast
qed


section \<open>What a flush does to the registry and to the trace\<close>

lemma translateAndSend_activeSessions [simp]:
  "activeSessions (translateAndSend env t lang sock w) = activeSessions w"
  by (simp add: translateAndSend_def sdk_call_def Let_def split: prod.splits sum.splits)

lemma translateAndSend_trace:
  "\<exists>rest. trace (translateAndSend env t lang sock w) = trace w @ rest"
  by (simp add: translateAndSend_def sdk_call_def Let_def split: prod.splits sum.splits)

lemma processAudioChunks_unfold:
  assumes "activeSessions w sessionId = Some s"
    and "audioChunks s \<noteq> []"
    and "geminiChat s = Some c"
    and "sendMessage env c [InlineData (str ''audio/webm'') (Base64 (concat (audioChunks s)))]
           (engine w) = (r, e')"
  shows "processAudioChunks env sessionId w =
     (let w2 = (emit (SendMessage c [InlineData (str ''audio/webm'') (Base64 (concat (audioChunks s)))])
                  (update_session sessionId (\<lambda>s. s\<lparr>audioChunks := []\<rparr>) w))\<lparr>engine := e'\<rparr>
      in case r of
           Inr transcription \<Rightarrow>
             if trim transcription \<noteq> [] then
               (let w3 = ws_send (ws s)
                           (JObj [(str ''type'', JStr (str ''transcription'')),
                                  (str ''text'', JStr (trim transcription))]) w2
                in if targetLanguage s \<noteq> JStr (str ''en'')
                   then Done (translateAndSend env (trim transcription) (targetLanguage s) (ws s) w3)
                   else Done w3)
             else Done w2
         | Inl error \<Rightarrow>
             Done (ws_send (ws s)
                     (JObj [(str ''type'', JStr (str ''transcription'')),
                            (str ''text'', JStr (str ''Audio processing error. Please try again.'')),
                            (str ''error'', JBool True)])
                     (logger Err w2)))"
proof -
  have "trim transcription \<noteq> [] \<Longrightarrow> transcription \<noteq> []" for transcription
    by (auto simp: trim_def)
  with assms show ?thesis
    by (auto simp: processAudioChunks_def sdk_call_def Let_def split: sum.splits)
qed

lemma processAudioChunks_no_chat:
  assumes "activeSessions w sessionId = Some s"
    and "audioChunks s \<noteq> []"
    and "geminiChat s = None"
  shows "processAudioChunks env sessionId w =
     Done (ws_send (ws s)
             (JObj [(str ''type'', JStr (str ''transcription'')),
                    (str ''text'', JStr (str ''Audio processing error. Please try again.'')),
                    (str ''error'', JBool True)])
             (logger Err (update_session sessionId (\<lambda>s. s\<lparr>audioChunks := []\<rparr>) w)))"
  using assms by (simp add: processAudioChunks_def Let_def)

lemma processAudioChunks_Done:
  assumes "activeSessions w sessionId = Some s"
  shows "\<exists>w'. processAudioChunks env sessionId w = Done w'"
proof (cases "audioChunks s = []")
  case True
  with assms show ?thesis by (simp add: processAudioChunks_def)
next
  case False
  show ?thesis
  proof (cases "geminiChat s")
    case None
    from processAudioChunks_no_chat [OF assms False None] show ?thesis by simp
  next
    case (Some c)
    obtain r e' where
      "sendMessage env c [InlineData (str ''audio/webm'') (Base64 (concat (audioChunks s)))]
         (engine w) = (r, e')"
      by (cases "sendMessage env c [InlineData (str ''audio/webm'') (Base64 (concat (audioChunks s)))]
         (engine w)")
    from processAudioChunks_unfold [OF assms False Some this] show ?thesis
      by (simp add: Let_def split: sum.splits)
  qed
qed

lemma processAudioChunks_activeSessions:
  assumes "activeSessions w sessionId = Some s"
  shows "activeSessions (world_of (processAudioChunks env sessionId w))
           = (activeSessions w)(sessionId \<mapsto> s\<lparr>audioChunks := []\<rparr>)"
proof (cases "audioChunks s = []")
  case True
  then have "s\<lparr>audioChunks := []\<rparr> = s" by simp
  with True assms show ?thesis
    by (simp add: processAudioChunks_def map_upd_triv)
next
  case False
  show ?thesis
  proof (cases "geminiChat s")
    case None
    from processAudioChunks_no_chat [OF assms False None] assms show ?thesis
      by (simp add: activeSessions_update_session)
  next
    case (Some c)
    obtain r e' where
      "sendMessage env c [InlineData (str ''audio/webm'') (Base64 (concat (audioChunks s)))]
         (engine w) = (r, e')"
      by (cases "sendMessage env c [InlineData (str ''audio/webm'') (Base64 (concat (audioChunks s)))]
         (engine w)")
    from processAudioChunks_unfold [OF assms False Some this] assms show ?thesis
      by (simp add: Let_def activeSessions_update_session split: sum.splits)
  qed
qed

lemma processAudioChunks_trace:
  assumes "activeSessions w sessionId = Some s"
    and "audioChunks s \<noteq> []"
    and "geminiChat s = Some c"
  shows "\<exists>rest. trace (world_of (processAudioChunks env sessionId w)) = trace w @
           [SendMessage c [InlineData (str ''audio/webm'') (Base64 (concat (audioChunks s)))]] @ rest"
proof -
  obtain r e' where
    "sendMessage env c [InlineData (str ''audio/webm'') (Base64 (concat (audioChunks s)))]
       (engine w) = (r, e')"
    by (cases "sendMessage env c [InlineData (str ''audio/webm'') (Base64 (concat (audioChunks s)))]
       (engine w)")
  note unfold = processAudioChunks_unfold [OF assms this]
  show ?thesis
  proof (cases r)
    case (Inl error)
    with unfold show ?thesis by (simp add: Let_def)
  next
    case (Inr transcription)
    show ?thesis
    proof (cases "trim transcription \<noteq> [] \<and> targetLanguage s \<noteq> JStr (str ''en'')")
      case False
      with unfold Inr show ?thesis by (auto simp: Let_def)
    next
      case True
      let ?w3 = "ws_send (ws s)
                   (JObj [(str ''type'', JStr (str ''transcription'')),
                          (str ''text'', JStr (trim transcription))])
                   ((emit (SendMessage c [InlineData (str ''audio/webm'') (Base64 (concat (audioChunks s)))])
                      (update_session sessionId (\<lambda>s. s\<lparr>audioChunks := []\<rparr>) w))\<lparr>engine := e'\<rparr>)"
      from translateAndSend_trace [of env "trim transcription" "targetLanguage s" "ws s" ?w3]
      obtain rest where
        "trace (translateAndSend env (trim transcription) (targetLanguage s) (ws s) ?w3)
           = trace ?w3 @ rest"
        by blast
      with unfold Inr True show ?thesis by (simp add: Let_def)
    qed
  qed
qed


section \<open>The stop and start commands\<close>

text \<open>
  C4. A \<open>stop\<close> for a session that is transcribing returns normally and leaves the
  session with \<open>isTranscribing\<close> false and an empty buffer, every other field and every
  other session as before. With an empty buffer nothing happens but the log line and the
  \<open>stopped\<close> message. With a non-empty buffer the flush comes first: the request with
  all the buffered audio is the first thing done after the log line, and the \<open>stopped\<close>
  message is the last. A \<open>stop\<close> for an idle session and a \<open>start\<close> for a
  transcribing one write a log line and do nothing else.
\<close>

theorem handleStopCommand_flushes_then_stops:
  assumes "activeSessions w sessionId = Some s"
  shows "(isTranscribing s \<longrightarrow>
           (\<exists>w'. handleStopCommand env sessionId w = Done w'
              \<and> activeSessions w' = (activeSessions w)(sessionId \<mapsto>
                   s\<lparr>isTranscribing := False, audioChunks := []\<rparr>)
              \<and> (audioChunks s = [] \<longrightarrow>
                   engine w' = engine w
                   \<and> trace w' = trace w @
                       [Log Info,
                        WsSend (ws s) (JObj [(str ''type'', JStr (str ''stopped'')),
                                             (str ''message'', JStr (str ''Transcription stopped''))])])
              \<and> (\<forall>c. audioChunks s \<noteq> [] \<and> geminiChat s = Some c \<longrightarrow>
                   (\<exists>between. trace w' = trace w @
                       [Log Info,
                        SendMessage c [InlineData (str ''audio/webm'')
                                         (Base64 (concat (audioChunks s)))]]
                       @ between @
                       [WsSend (ws s) (JObj [(str ''type'', JStr (str ''stopped'')),
                                             (str ''message'', JStr (str ''Transcription stopped''))])]))))
       \<and> (\<not> isTranscribing s \<longrightarrow> handleStopCommand env sessionId w = Done (logger Info w))
       \<and> (isTranscribing s \<longrightarrow> handleStartCommand env command sessionId w = Done (logger Info w))"
proof -
  let ?stopped = "JObj [(str ''type'', JStr (str ''stopped'')),
                        (str ''message'', JStr (str ''Transcription stopped''))]"
  let ?w1 = "logger Info w"
  have s1: "activeSessions ?w1 sessionId = Some s"
    using assms by simp
  have idle: "handleStopCommand env sessionId w = Done ?w1" if "\<not> isTranscribing s"
    using that assms by (simp add: handleStopCommand_def)
  have start: "handleStartCommand env command sessionId w = Done ?w1" if "isTranscribing s"
    using that assms by (simp add: handleStartCommand_def)
  have stop: "\<exists>w'. handleStopCommand env sessionId w = Done w'
              \<and> activeSessions w' = (activeSessions w)(sessionId \<mapsto>
                   s\<lparr>isTranscribing := False, audioChunks := []\<rparr>)
              \<and> (audioChunks s = [] \<longrightarrow>
                   engine w' = engine w \<and> trace w' = trace w @ [Log Info, WsSend (ws s) ?stopped])
              \<and> (\<forall>c. audioChunks s \<noteq> [] \<and> geminiChat s = Some c \<longrightarrow>
                   (\<exists>between. trace w' = trace w @
                       [Log Info,
                        SendMessage c [InlineData (str ''audio/webm'')
                                         (Base64 (concat (audioChunks s)))]]
                       @ between @ [WsSend (ws s) ?stopped]))"
    if transcribing: "isTranscribing s"
  proof (cases "audioChunks s = []")
    case True
    let ?w' = "ws_send (ws s) ?stopped
                 (update_session sessionId (\<lambda>s. s\<lparr>isTranscribing := False, audioChunks := []\<rparr>) ?w1)"
    have "handleStopCommand env sessionId w = Done ?w'"
      using True transcribing assms by (simp add: handleStopCommand_def)
    moreover have "activeSessions ?w' = (activeSessions w)(sessionId \<mapsto>
                   s\<lparr>isTranscribing := False, audioChunks := []\<rparr>)"
      using assms by (simp add: activeSessions_update_session)
    ultimately show ?thesis
      using True by (intro exI[of _ ?w']) simp
  next
    case False
    obtain w2 where flush: "processAudioChunks env sessionId ?w1 = Done w2"
      using processAudioChunks_Done [OF s1] by blast
    let ?w' = "ws_send (ws s) ?stopped
                 (update_session sessionId (\<lambda>s. s\<lparr>isTranscribing := False, audioChunks := []\<rparr>) w2)"
    have run: "handleStopCommand env sessionId w = Done ?w'"
      using False transcribing assms flush by (simp add: handleStopCommand_def)
    have "activeSessions w2 = (activeSessions w)(sessionId \<mapsto> s\<lparr>audioChunks := []\<rparr>)"
      using processAudioChunks_activeSessions [OF s1, of env] flush by simp
    then have sessions: "activeSessions ?w' = (activeSessions w)(sessionId \<mapsto>
                   s\<lparr>isTranscribing := False, audioChunks := []\<rparr>)"
      by (simp add: activeSessions_update_session)
    have order: "\<exists>between. trace ?w' = trace w @
                       [Log Info,
                        SendMessage c [InlineData (str ''audio/webm'')
                                         (Base64 (concat (audioChunks s)))]]
                       @ between @ [WsSend (ws s) ?stopped]"
      if "geminiChat s = Some c" for c
    proof -
      from processAudioChunks_trace [OF s1 False that, of env] flush
      obtain rest where "trace w2 = trace ?w1 @
           [SendMessage c [InlineData (str ''audio/webm'') (Base64 (concat (audioChunks s)))]] @ rest"
        by auto
      then show ?thesis by simp
    qed
    show ?thesis
      using run sessions order False by (intro exI[of _ ?w']) blast
  qed
  show ?thesis
    using idle start stop by blast
qed

theorem handleStopCommand_flushes_then_stops_witness:
  "activeSessions (demo_transcribing en [[1], [2]]) s1 = Some (demo_live en [[1], [2]])
   \<and> isTranscribing (demo_live en [[1], [2]])
   \<and> audioChunks (demo_live en [[1], [2]]) \<noteq> []
   \<and> geminiChat (demo_live en [[1], [2]]) = Some 3
   \<and> (\<exists>w'. handleStopCommand demo_env s1 (demo_transcribing en [[1], [2]]) = Done w'
         \<and> activeSessions w' s1 = Some (demo_session\<lparr>geminiModel := Some 7, geminiChat := Some 3\<rparr>)
         \<and> (\<exists>between. trace w' =
               [Log Info, SendMessage 3 [InlineData (str ''audio/webm'') (Base64 [1, 2])]]
               @ between @
               [WsSend 1 (JObj [(str ''type'', JStr (str ''stopped'')),
                                (str ''message'', JStr (str ''Transcription stopped''))])]))
   \<and> handleStartCommand demo_env (JObj [(str ''type'', JStr (str ''start''))]) s1
        (demo_transcribing en [[1], [2]])
      = Done (logger Info (demo_transcribing en [[1], [2]]))"
proof -
  let ?w = "demo_transcribing en [[1], [2]]"
  let ?s = "demo_live en [[1], [2]]"
  have h1: "activeSessions ?w s1 = Some ?s"
    by (simp add: demo_transcribing_def)
  have h2: "isTranscribing ?s" and h3: "audioChunks ?s \<noteq> []" and h4: "geminiChat ?s = Some 3"
    by (simp_all add: demo_live_def)
  note inst = handleStopCommand_flushes_then_stops
    [OF h1, where env = demo_env and command = "JObj [(str ''type'', JStr (str ''start''))]"]
  from inst h2 h3 h4 obtain w' where
    run: "handleStopCommand demo_env s1 ?w = Done w'"
    and sessions: "activeSessions w' = (activeSessions ?w)(s1 \<mapsto>
                   ?s\<lparr>isTranscribing := False, audioChunks := []\<rparr>)"
    and order: "\<exists>between. trace w' = trace ?w @
                  [Log Info, SendMessage 3 [InlineData (str ''audio/webm'')
                     (Base64 (concat (audioChunks ?s)))]]
                  @ between @
                  [WsSend (ws ?s) (JObj [(str ''type'', JStr (str ''stopped'')),
                                        (str ''message'', JStr (str ''Transcription stopped''))])]"
    by blast
  from sessions have a: "activeSessions w' s1 = Some (demo_session\<lparr>geminiModel := Some 7, geminiChat := Some 3\<rparr>)"
    by (simp add: demo_live_def demo_session_def en_def)
  from order have b: "\<exists>between. trace w' =
               [Log Info, SendMessage 3 [InlineData (str ''audio/webm'') (Base64 [1, 2])]]
               @ between @
               [WsSend 1 (JObj [(str ''type'', JStr (str ''stopped'')),
                                (str ''message'', JStr (str ''Transcription stopped''))])]"
    by (simp add: demo_live_def demo_session_def demo_transcribing_def)
  from inst h2 have c: "handleStartCommand demo_env (JObj [(str ''type'', JStr (str ''start''))]) s1 ?w
      = Done (logger Info ?w)"
    by blast
  from h1 h2 h3 h4 run a b c show ?thesis by blast
qed


section \<open>The invariants hold along every run\<close>

lemma world_okI:
  assumes "\<And>sessionId s. activeSessions w sessionId = Some s \<Longrightarrow> session_ok s"
  shows "world_ok w"
  using assms by (simp add: world_ok_def)

lemma world_okD:
  "world_ok w \<Longrightarrow> activeSessions w sessionId = Some s \<Longrightarrow> session_ok s"
  by (simp add: world_ok_def)

lemma world_ok_cong:
  "activeSessions w' = activeSessions w \<Longrightarrow> world_ok w \<Longrightarrow> world_ok w'"
  by (simp add: world_ok_def)

lemma world_ok_upd:
  assumes "world_ok w" and "session_ok s'" and "activeSessions w' = (activeSessions w)(sessionId \<mapsto> s')"
  shows "world_ok w'"
  using assms by (auto simp: world_ok_def split: if_splits)

lemma world_ok_initial: "world_ok (initial e)"
  by (simp add: world_ok_def initial_def)

lemma world_ok_handleConnection:
  assumes "world_ok w"
  shows "world_ok (handleConnection sock sessionId w)"
proof -
  let ?fresh = "\<lparr>ws = sock, targetLanguage = JStr (str ''en''), audioChunks = [],
                  isTranscribing = False, geminiModel = None, geminiStream = None,
                  geminiChat = None\<rparr>"
  have sessions: "activeSessions (handleConnection sock sessionId w) = (activeSessions w)(sessionId \<mapsto> ?fresh)"
    by (simp add: handleConnection_def Let_def)
  have fresh: "session_ok ?fresh"
    by (simp add: session_ok_def)
  from assms fresh sessions show ?thesis
    by (rule world_ok_upd)
qed

lemma world_ok_handleClose:
  assumes "world_ok w"
  shows "world_ok (handleClose sessionId w)"
proof -
  have "activeSessions (handleClose sessionId w) = (activeSessions w)(sessionId := None)"
    by (auto simp: handleClose_def Let_def split: option.splits)
  with assms show ?thesis
    by (auto simp: world_ok_def split: if_splits)
qed

lemma world_ok_processAudioChunks:
  assumes "world_ok w'" and "activeSessions w = (activeSessions w')(sessionId \<mapsto> s)"
    and "length (audioChunks s) \<le> 5" and "isTranscribing s \<longrightarrow> geminiChat s \<noteq> None"
  shows "world_ok (world_of (processAudioChunks env sessionId w))"
proof -
  have here: "activeSessions w sessionId = Some s"
    using assms(2) by simp
  have "session_ok (s\<lparr>audioChunks := []\<rparr>)"
    using assms(4) by (simp add: session_ok_def)
  moreover have "activeSessions (world_of (processAudioChunks env sessionId w))
      = (activeSessions w')(sessionId \<mapsto> s\<lparr>audioChunks := []\<rparr>)"
    using processAudioChunks_activeSessions [OF here, of env] assms(2) by simp
  ultimately show ?thesis
    using assms(1) by (rule world_ok_upd [rotated])
qed

lemma world_ok_handleAudioData:
  assumes "world_ok w"
  shows "world_ok (world_of (handleAudioData env b sessionId w))"
proof (cases "activeSessions w sessionId")
  case None
  then show ?thesis using assms by (simp add: handleAudioData_def)
next
  case (Some s)
  note ok = world_okD [OF assms Some]
  show ?thesis
  proof (cases "isTranscribing s")
    case False
    with Some assms show ?thesis
      by (simp add: handleAudioData_def world_ok_def)
  next
    case True
    let ?s' = "s\<lparr>audioChunks := audioChunks s @ [b]\<rparr>"
    let ?w1 = "update_session sessionId (\<lambda>s. s\<lparr>audioChunks := audioChunks s @ [b]\<rparr>) w"
    have w1: "activeSessions ?w1 = (activeSessions w)(sessionId \<mapsto> ?s')"
      using Some by (simp add: activeSessions_update_session)
    show ?thesis
    proof (cases "length (audioChunks s @ [b]) \<ge> 5")
      case flush: True
      have "world_ok (world_of (processAudioChunks env sessionId ?w1))"
        using assms w1
      proof (rule world_ok_processAudioChunks)
        show "length (audioChunks ?s') \<le> 5"
          using ok by (simp add: session_ok_def)
        show "isTranscribing ?s' \<longrightarrow> geminiChat ?s' \<noteq> None"
          using ok by (simp add: session_ok_def)
      qed
      with Some True flush show ?thesis
        by (simp add: handleAudioData_def)
    next
      case keep: False
      have "session_ok ?s'"
        using ok keep by (simp add: session_ok_def)
      with assms have "world_ok ?w1"
        using w1 by (rule world_ok_upd)
      with Some True keep show ?thesis
        by (simp add: handleAudioData_def)
    qed
  qed
qed

lemma world_ok_handleStopCommand:
  assumes "world_ok w"
  shows "world_ok (world_of (handleStopCommand env sessionId w))"
proof (cases "activeSessions w sessionId")
  case None
  then show ?thesis using assms by (simp add: handleStopCommand_def)
next
  case (Some s)
  show ?thesis
  proof (cases "isTranscribing s")
    case False
    with Some assms show ?thesis
      by (simp add: handleStopCommand_def world_ok_def)
  next
    case True
    let ?w1 = "logger Info w"
    let ?w2 = "if length (audioChunks s) > 0
               then (case processAudioChunks env sessionId ?w1 of
                       Done w' \<Rightarrow> w' | Thrown error w' \<Rightarrow> logger Err w')
               else ?w1"
    have s1: "activeSessions ?w1 sessionId = Some s"
      using Some by simp
    obtain w' where flush: "processAudioChunks env sessionId ?w1 = Done w'"
      using processAudioChunks_Done [OF s1] by blast
    have "activeSessions w' = (activeSessions w)(sessionId \<mapsto> s\<lparr>audioChunks := []\<rparr>)"
      using processAudioChunks_activeSessions [OF s1, of env] flush by simp
    then have "\<exists>s2. activeSessions ?w2 = (activeSessions w)(sessionId \<mapsto> s2)"
      using flush Some by (auto simp: map_upd_triv intro: exI[of _ s])
    then obtain s2 where w2: "activeSessions ?w2 = (activeSessions w)(sessionId \<mapsto> s2)"
      by blast
    let ?w3 = "update_session sessionId (\<lambda>s. s\<lparr>isTranscribing := False, audioChunks := []\<rparr>) ?w2"
    have w3: "activeSessions ?w3 = (activeSessions w)(sessionId \<mapsto>
                s2\<lparr>isTranscribing := False, audioChunks := []\<rparr>)"
      using w2 by (simp add: activeSessions_update_session)
    have "world_ok ?w3"
      using assms _ w3 by (rule world_ok_upd) (simp add: session_ok_def)
    moreover have "activeSessions (world_of (handleStopCommand env sessionId w)) = activeSessions ?w3"
      using Some True by (simp add: handleStopCommand_def Let_def)
    ultimately show ?thesis
      by (rule world_ok_cong [rotated])
  qed
qed


lemma world_ok_at:
  assumes "world_ok w"
    and "\<And>other. other \<noteq> sessionId \<Longrightarrow> activeSessions w' other = activeSessions w other"
    and "\<And>s'. activeSessions w' sessionId = Some s' \<Longrightarrow> session_ok s'"
  shows "world_ok w'"
  unfolding world_ok_def
proof (intro allI impI)
  fix other s'
  assume "activeSessions w' other = Some s'"
  then show "session_ok s'"
    using assms by (cases "other = sessionId") (auto simp: world_ok_def)
qed

lemma world_ok_handleStartCommand:
  assumes "world_ok w"
  shows "world_ok (world_of (handleStartCommand env command sessionId w))"
proof (cases "activeSessions w sessionId")
  case None
  then show ?thesis using assms by (simp add: handleStartCommand_def)
next
  case (Some s)
  show ?thesis
  proof (cases "isTranscribing s")
    case True
    with Some assms show ?thesis
      by (simp add: handleStartCommand_def world_ok_def)
  next
    case False
    from assms show ?thesis
    proof (rule world_ok_at [where sessionId = sessionId])
      fix other
      assume "other \<noteq> sessionId"
      then show "activeSessions (world_of (handleStartCommand env command sessionId w)) other
                   = activeSessions w other"
        using Some False
        by (auto simp: handleStartCommand_def Let_def sdk_call_def activeSessions_update_session
            split: prod.splits sum.splits)
    next
      fix s'
      assume "activeSessions (world_of (handleStartCommand env command sessionId w)) sessionId = Some s'"
      then show "session_ok s'"
        using Some False
        by (auto simp: handleStartCommand_def Let_def sdk_call_def activeSessions_update_session
            session_ok_def split: prod.splits sum.splits)
    qed
  qed
qed

lemma world_ok_handleSetLanguageCommand:
  assumes "world_ok w"
  shows "world_ok (world_of (handleSetLanguageCommand command sessionId w))"
proof (cases "activeSessions w sessionId")
  case None
  then show ?thesis
    using assms
    by (auto simp: handleSetLanguageCommand_def Let_def world_ok_def split: sum.splits)
next
  case (Some s)
  note ok = world_okD [OF assms Some]
  from assms show ?thesis
  proof (rule world_ok_at [where sessionId = sessionId])
    fix other
    assume "other \<noteq> sessionId"
    then show "activeSessions (world_of (handleSetLanguageCommand command sessionId w)) other
                 = activeSessions w other"
      using Some
      by (auto simp: handleSetLanguageCommand_def Let_def activeSessions_update_session
          split: sum.splits)
  next
    fix s'
    assume "activeSessions (world_of (handleSetLanguageCommand command sessionId w)) sessionId = Some s'"
    then show "session_ok s'"
      using Some ok
      by (auto simp: handleSetLanguageCommand_def Let_def activeSessions_update_session
          session_ok_def split: sum.splits if_splits)
  qed
qed

lemma world_ok_logger [simp]: "world_ok (logger l w) = world_ok w"
  by (simp add: world_ok_def)

lemma world_ok_ws_send [simp]: "world_ok (ws_send sock obj w) = world_ok w"
  by (simp add: world_ok_def)

lemma world_ok_handleCommand:
  assumes "world_ok w"
  shows "world_ok (world_of (handleCommand env t sessionId w))"
  using assms world_ok_handleStartCommand [OF assms] world_ok_handleStopCommand [OF assms]
    world_ok_handleSetLanguageCommand [OF assms]
  by (simp add: handleCommand_def split: sum.splits)

lemma world_ok_handleMessage:
  assumes "world_ok w"
  shows "world_ok (handleMessage env msg sessionId w)"
proof -
  have "world_ok (world_of (handleMessage_try env msg sessionId w))"
    using world_ok_handleCommand [OF assms] world_ok_handleAudioData [OF assms]
    by (simp add: handleMessage_try_def split: ws_message.splits)
  then show ?thesis
    using assms
    by (cases "handleMessage_try env msg sessionId w")
      (simp_all add: handleMessage_def split: option.splits)
qed

lemma world_ok_step: "world_ok w \<Longrightarrow> world_ok (step env w ev)"
  by (cases ev)
    (simp_all add: world_ok_handleConnection world_ok_handleMessage world_ok_handleClose
      handleError_def)

lemma world_ok_run: "world_ok (run env e events)"
proof (induction events rule: rev_induct)
  case Nil
  show ?case by (simp add: run_def world_ok_initial)
next
  case (snoc ev events)
  then show ?case by (simp add: run_def world_ok_step)
qed


lemma webm_translateAndSend [simp]:
  "list_all webm_request (trace (translateAndSend env t lang sock w))
     = list_all webm_request (trace w)"
  by (simp add: translateAndSend_def sdk_call_def Let_def split: prod.splits sum.splits)

lemma webm_processAudioChunks:
  assumes "list_all webm_request (trace w)"
  shows "list_all webm_request (trace (world_of (processAudioChunks env sessionId w)))"
  using assms
  by (auto simp: processAudioChunks_def sdk_call_def Let_def
      split: option.splits prod.splits sum.splits)

lemma webm_handleAudioData:
  assumes "list_all webm_request (trace w)"
  shows "list_all webm_request (trace (world_of (handleAudioData env b sessionId w)))"
  using assms webm_processAudioChunks
    [of "update_session sessionId (\<lambda>s. s\<lparr>audioChunks := audioChunks s @ [b]\<rparr>) w" env sessionId]
  by (simp add: handleAudioData_def Let_def split: option.splits)

lemma webm_handleStopCommand:
  assumes "list_all webm_request (trace w)"
  shows "list_all webm_request (trace (world_of (handleStopCommand env sessionId w)))"
proof -
  have "list_all webm_request (trace (world_of (processAudioChunks env sessionId (logger Info w))))"
    using assms by (intro webm_processAudioChunks) simp
  then show ?thesis
    using assms
    by (cases "processAudioChunks env sessionId (logger Info w)")
      (simp_all add: handleStopCommand_def Let_def split: option.splits)
qed

lemma webm_handleStartCommand:
  assumes "list_all webm_request (trace w)"
  shows "list_all webm_request (trace (world_of (handleStartCommand env command sessionId w)))"
  using assms
  by (auto simp: handleStartCommand_def sdk_call_def Let_def
      split: option.splits prod.splits sum.splits)

lemma webm_handleSetLanguageCommand:
  assumes "list_all webm_request (trace w)"
  shows "list_all webm_request (trace (world_of (handleSetLanguageCommand command sessionId w)))"
  using assms
  by (auto simp: handleSetLanguageCommand_def Let_def split: option.splits sum.splits)

lemma webm_handleCommand:
  assumes "list_all webm_request (trace w)"
  shows "list_all webm_request (trace (world_of (handleCommand env t sessionId w)))"
  using assms webm_handleStartCommand [OF assms] webm_handleStopCommand [OF assms]
    webm_handleSetLanguageCommand [OF assms]
  by (simp add: handleCommand_def split: sum.splits)

lemma webm_handleMessage:
  assumes "list_all webm_request (trace w)"
  shows "list_all webm_request (trace (handleMessage env msg sessionId w))"
proof -
  have "list_all webm_request (trace (world_of (handleMessage_try env msg sessionId w)))"
    using webm_handleCommand [OF assms] webm_handleAudioData [OF assms]
    by (simp add: handleMessage_try_def split: ws_message.splits)
  then show ?thesis
    using assms
    by (cases "handleMessage_try env msg sessionId w")
      (simp_all add: handleMessage_def split: option.splits)
qed

lemma webm_step:
  "list_all webm_request (trace w) \<Longrightarrow> list_all webm_request (trace (step env w ev))"
  by (cases ev)
    (simp_all add: webm_handleMessage handleConnection_def handleClose_def handleError_def
      Let_def split: option.splits)

lemma webm_run: "list_all webm_request (trace (run env e events))"
proof (induction events rule: rev_induct)
  case Nil
  show ?case by (simp add: run_def initial_def)
next
  case (snoc ev events)
  then show ?case by (simp add: run_def webm_step)
qed


lemma demo_run:
  "run demo_env 0 demo_events =
     \<lparr>activeSessions = [s1 \<mapsto> demo_live en [[1], [2], [3], [4]]], engine = 2,
      trace = [Log Info,
               WsSend 1 (JObj [(str ''type'', JStr (str ''session'')), (str ''sessionId'', JStr s1)]),
               Log Info,
               WsSend 1 (JObj [(str ''type'', JStr (str ''started'')),
                               (str ''message'', JStr (str ''Transcription started''))])]\<rparr>"
  by (simp add: run_def demo_events_def initial_def handleConnection_def handleMessage_def
      handleMessage_try_def handleCommand_def handleStartCommand_def handleAudioData_def
      demo_env_def demo_parse_def demo_utf8_def start_ogg_def startsWith_def
      update_session_def sdk_call_def logger_def ws_send_def emit_def Let_def
      demo_live_def demo_session_def en_def str_def)

section \<open>Buffering and the flush threshold\<close>

text \<open>
  C5. In any world the server can reach, a session that is transcribing holds fewer than
  five fragments. A fragment that arrives when it holds fewer than four is appended and
  nothing else happens: no request is made. A fragment that arrives when it holds four
  makes five, and that is a flush: the first thing done is the request whose payload is
  the five fragments concatenated in the order they arrived, and the buffer is empty
  afterwards. So a flush on arrival happens at five exactly. Every flush, in whatever
  world, sends the concatenation of the buffer in order as one payload and empties the
  buffer.
\<close>

theorem handleAudioData_flush_at_five:
  assumes "activeSessions (run env e events) sessionId = Some s"
    and "isTranscribing s"
  shows "length (audioChunks s) < 5
       \<and> (length (audioChunks s) < 4 \<longrightarrow>
            handleAudioData env b sessionId (run env e events)
              = Done (update_session sessionId (\<lambda>s. s\<lparr>audioChunks := audioChunks s @ [b]\<rparr>)
                        (run env e events)))
       \<and> (length (audioChunks s) = 4 \<longrightarrow>
            (\<exists>c rest. geminiChat s = Some c
               \<and> trace (world_of (handleAudioData env b sessionId (run env e events)))
                   = trace (run env e events) @
                     [SendMessage c [InlineData (str ''audio/webm'')
                                       (Base64 (concat (audioChunks s @ [b])))]] @ rest
               \<and> activeSessions (world_of (handleAudioData env b sessionId (run env e events)))
                   = (activeSessions (run env e events))(sessionId \<mapsto> s\<lparr>audioChunks := []\<rparr>)))
       \<and> (\<forall>w0 sessionId0 s0 c0.
            activeSessions w0 sessionId0 = Some s0 \<and> audioChunks s0 \<noteq> [] \<and> geminiChat s0 = Some c0
            \<longrightarrow> (\<exists>rest. trace (world_of (processAudioChunks env sessionId0 (w0 :: 'a world)))
                   = trace w0 @
                     [SendMessage c0 [InlineData (str ''audio/webm'')
                                        (Base64 (concat (audioChunks s0)))]] @ rest)
               \<and> activeSessions (world_of (processAudioChunks env sessionId0 w0))
                   = (activeSessions w0)(sessionId0 \<mapsto> s0\<lparr>audioChunks := []\<rparr>))"
proof -
  let ?w = "run env e events"
  let ?s' = "s\<lparr>audioChunks := audioChunks s @ [b]\<rparr>"
  let ?w1 = "update_session sessionId (\<lambda>s. s\<lparr>audioChunks := audioChunks s @ [b]\<rparr>) ?w"
  have ok: "session_ok s"
    using world_ok_run assms(1) by (rule world_okD)
  then have bound: "length (audioChunks s) < 5"
    by (simp add: session_ok_def)
  from ok assms(2) obtain c where chat: "geminiChat s = Some c"
    by (auto simp: session_ok_def)
  have keep: "handleAudioData env b sessionId ?w = Done ?w1" if "length (audioChunks s) < 4"
    using that assms by (simp add: handleAudioData_def)
  have w1: "activeSessions ?w1 = (activeSessions ?w)(sessionId \<mapsto> ?s')"
    using assms(1) by (simp add: activeSessions_update_session)
  then have s1: "activeSessions ?w1 sessionId = Some ?s'"
    by simp
  have flush: "\<exists>c rest. geminiChat s = Some c
               \<and> trace (world_of (handleAudioData env b sessionId ?w))
                   = trace ?w @
                     [SendMessage c [InlineData (str ''audio/webm'')
                                       (Base64 (concat (audioChunks s @ [b])))]] @ rest
               \<and> activeSessions (world_of (handleAudioData env b sessionId ?w))
                   = (activeSessions ?w)(sessionId \<mapsto> s\<lparr>audioChunks := []\<rparr>)"
    if "length (audioChunks s) = 4"
  proof -
    have run: "handleAudioData env b sessionId ?w = processAudioChunks env sessionId ?w1"
      using that assms by (simp add: handleAudioData_def)
    from processAudioChunks_trace [OF s1, of c env] chat
    obtain rest where "trace (world_of (processAudioChunks env sessionId ?w1))
        = trace ?w @ [SendMessage c [InlineData (str ''audio/webm'')
                                       (Base64 (concat (audioChunks s @ [b])))]] @ rest"
      by auto
    moreover have "activeSessions (world_of (processAudioChunks env sessionId ?w1))
        = (activeSessions ?w)(sessionId \<mapsto> s\<lparr>audioChunks := []\<rparr>)"
      using processAudioChunks_activeSessions [OF s1, of env] w1 by simp
    ultimately show ?thesis
      using chat run by auto
  qed
  have every: "(\<exists>rest. trace (world_of (processAudioChunks env sessionId0 w0))
                   = trace w0 @
                     [SendMessage c0 [InlineData (str ''audio/webm'')
                                        (Base64 (concat (audioChunks s0)))]] @ rest)
               \<and> activeSessions (world_of (processAudioChunks env sessionId0 w0))
                   = (activeSessions w0)(sessionId0 \<mapsto> s0\<lparr>audioChunks := []\<rparr>)"
    if "activeSessions w0 sessionId0 = Some s0" "audioChunks s0 \<noteq> []" "geminiChat s0 = Some c0"
    for w0 :: "'a world" and sessionId0 s0 c0
    using processAudioChunks_trace [OF that, of env] processAudioChunks_activeSessions [OF that(1), of env]
    by simp
  show ?thesis
    using bound keep flush every by blast
qed

theorem handleAudioData_flush_at_five_witness:
  "activeSessions (run demo_env 0 demo_events) s1 = Some (demo_live en [[1], [2], [3], [4]])
   \<and> isTranscribing (demo_live en [[1], [2], [3], [4]])
   \<and> length (audioChunks (demo_live en [[1], [2], [3], [4]])) = 4
   \<and> (\<exists>rest. trace (world_of (handleAudioData demo_env [5] s1 (run demo_env 0 demo_events)))
         = trace (run demo_env 0 demo_events) @
           [SendMessage 3 [InlineData (str ''audio/webm'') (Base64 [1, 2, 3, 4, 5])]] @ rest)
   \<and> activeSessions (world_of (handleAudioData demo_env [5] s1 (run demo_env 0 demo_events))) s1
       = Some (demo_live en [])"
proof -
  let ?s = "demo_live en [[1], [2], [3], [4]]"
  have h1: "activeSessions (run demo_env 0 demo_events) s1 = Some ?s"
    by (simp add: demo_run)
  have h2: "isTranscribing ?s" and h3: "length (audioChunks ?s) = 4"
    by (simp_all add: demo_live_def)
  have chat: "geminiChat ?s = Some c \<longleftrightarrow> c = 3" for c
    by (auto simp: demo_live_def)
  from handleAudioData_flush_at_five [OF h1 h2, of "[5]"] h3
  obtain c rest where "geminiChat ?s = Some c"
    and "trace (world_of (handleAudioData demo_env [5] s1 (run demo_env 0 demo_events)))
           = trace (run demo_env 0 demo_events) @
             [SendMessage c [InlineData (str ''audio/webm'')
                               (Base64 (concat (audioChunks ?s @ [[5]])))]] @ rest"
    and "activeSessions (world_of (handleAudioData demo_env [5] s1 (run demo_env 0 demo_events)))
           = (activeSessions (run demo_env 0 demo_events))(s1 \<mapsto> ?s\<lparr>audioChunks := []\<rparr>)"
    by blast
  then have "\<exists>rest. trace (world_of (handleAudioData demo_env [5] s1 (run demo_env 0 demo_events)))
         = trace (run demo_env 0 demo_events) @
           [SendMessage 3 [InlineData (str ''audio/webm'') (Base64 [1, 2, 3, 4, 5])]] @ rest"
    and "activeSessions (world_of (handleAudioData demo_env [5] s1 (run demo_env 0 demo_events))) s1
       = Some (demo_live en [])"
    by (auto simp: chat) (simp_all add: demo_live_def)
  with h1 h2 h3 show ?thesis by blast
qed







section \<open>The MIME type of a transcription request\<close>

text \<open>
  C10. Whatever the events, every transcription request the server has made carries one
  inline part of MIME type \<open>audio/webm\<close>. \<open>handleStartCommand\<close> does not depend on
  the command it is given, and two frames that parse to \<open>start\<close> commands, whatever
  else they hold, leave the same world.
\<close>

theorem start_format_never_read:
  "list_all webm_request (trace (run env e events))
   \<and> handleStartCommand env command1 sessionId w = handleStartCommand env command2 sessionId w
   \<and> (\<forall>t1 t2 c1 c2.
        JSON_parse env t1 = Inr c1 \<and> get_prop c1 ''type'' = Inr (JStr (str ''start''))
        \<and> JSON_parse env t2 = Inr c2 \<and> get_prop c2 ''type'' = Inr (JStr (str ''start''))
        \<longrightarrow> handleMessage env (MString t1) sessionId w = handleMessage env (MString t2) sessionId w)"
proof -
  have same: "handleStartCommand env command1 sessionId w = handleStartCommand env command2 sessionId w"
    for command1 command2
    by (simp add: handleStartCommand_def)
  have "handleMessage env (MString t1) sessionId w = handleMessage env (MString t2) sessionId w"
    if "JSON_parse env t1 = Inr c1" "get_prop c1 ''type'' = Inr (JStr (str ''start''))"
      "JSON_parse env t2 = Inr c2" "get_prop c2 ''type'' = Inr (JStr (str ''start''))"
    for t1 t2 c1 c2
  proof -
    have "handleMessage_try env (MString t1) sessionId w = handleMessage_try env (MString t2) sessionId w"
      using that same [of c1 c2] by (simp add: handleMessage_try_def handleCommand_def)
    then show ?thesis
      by (simp add: handleMessage_def split: option.splits)
  qed
  then show ?thesis
    using webm_run [of env e events] same by blast
qed

theorem start_format_never_read_witness:
  "JSON_parse demo_env start_ogg
     = Inr (JObj [(str ''type'', JStr (str ''start'')), (str ''format'', JStr (str ''audio/ogg''))])
   \<and> JSON_parse demo_env start_webm
     = Inr (JObj [(str ''type'', JStr (str ''start'')), (str ''format'', JStr (str ''audio/webm''))])
   \<and> handleMessage demo_env (MString start_ogg) s1 demo_idle
     = handleMessage demo_env (MString start_webm) s1 demo_idle
   \<and> list_all webm_request (trace (run demo_env 0 (demo_events @ [Message (MBuffer [5]) s1])))
   \<and> trace (run demo_env 0 (demo_events @ [Message (MBuffer [5]) s1])) ! 4
     = SendMessage 3 [InlineData (str ''audio/webm'') (Base64 [1, 2, 3, 4, 5])]"
proof -
  let ?ogg = "JObj [(str ''type'', JStr (str ''start'')), (str ''format'', JStr (str ''audio/ogg''))]"
  let ?webm = "JObj [(str ''type'', JStr (str ''start'')), (str ''format'', JStr (str ''audio/webm''))]"
  have p1: "JSON_parse demo_env start_ogg = Inr ?ogg"
    by (simp add: demo_env_def demo_parse_def start_ogg_def)
  have p2: "JSON_parse demo_env start_webm = Inr ?webm"
    by (simp add: demo_env_def demo_parse_def start_webm_def start_ogg_def str_def)
  have t1: "get_prop ?ogg ''type'' = Inr (JStr (str ''start''))"
    and t2: "get_prop ?webm ''type'' = Inr (JStr (str ''start''))"
    by simp_all
  note inst = start_format_never_read
    [of demo_env 0 "demo_events @ [Message (MBuffer [5]) s1]" ?ogg s1 demo_idle ?webm]
  from inst p1 p2 t1 t2
  have same: "handleMessage demo_env (MString start_ogg) s1 demo_idle
     = handleMessage demo_env (MString start_webm) s1 demo_idle"
    by blast
  from inst
  have webm: "list_all webm_request (trace (run demo_env 0 (demo_events @ [Message (MBuffer [5]) s1])))"
    by blast
  have "trace (handleMessage demo_env (MBuffer [5]) s1 (run demo_env 0 demo_events)) ! 4
     = SendMessage 3 [InlineData (str ''audio/webm'') (Base64 [1, 2, 3, 4, 5])]"
    unfolding demo_run
    by (simp add: handleMessage_def handleMessage_try_def handleAudioData_def
        processAudioChunks_def demo_env_def demo_utf8_def demo_sendMessage_def startsWith_def
        update_session_def sdk_call_def logger_def ws_send_def emit_def Let_def
        demo_live_def demo_session_def en_def str_def trim_def is_space_def)
  then have "trace (run demo_env 0 (demo_events @ [Message (MBuffer [5]) s1])) ! 4
     = SendMessage 3 [InlineData (str ''audio/webm'') (Base64 [1, 2, 3, 4, 5])]"
    by (simp add: run_def)
  with p1 p2 same webm show ?thesis by blast
qed


section \<open>Malformed and unknown commands\<close>





section \<open>The gateway when the engine is down\<close>

text \<open>
  The single-shot path is entered only when the live path has thrown, and the live path
  throws only in production mode.
\<close>

lemma geminiLive_throws_only_in_production:
  "fst (geminiLive_transcribeAudio env buf fmt e) = Inl error \<Longrightarrow>
   NODE_ENV env = Some (str ''production'')"
  by (auto simp: geminiLive_transcribeAudio_def Let_def split: prod.splits sum.splits if_splits)

lemma transcribeAudio_live_answer:
  assumes "fmt \<noteq> []"
    and "geminiLive_transcribeAudio env buf fmt e = (Inr transcription, e1)"
  shows "transcribeAudio env (Some buf) fmt e = (Inr (trim transcription), e1)"
  using assms by (simp add: transcribeAudio_def)

text \<open>
  In production mode, with both requests to the engine failing, the inner \<open>catch\<close> of
  the single-shot path answers with the placeholder whatever the mode.
\<close>

lemma transcribeAudio_both_requests_fail:
  assumes "fmt \<noteq> []"
    and "NODE_ENV env = Some (str ''production'')"
    and "getGenerativeModel env e = (Inr m, e1)"
    and "startChat env m e1 = (Inr c, e2)"
    and "sendMessage env c [InlineData fmt (Base64 buf)] e2 = (Inl error, e3)"
    and "getGenerativeModel env e3 = (Inr m', e4)"
    and "generateContent env m'
           (Contents [TextPart transcription_directive, InlineData fmt (Base64 buf)]) e4
         = (Inl error', e5)"
  shows "transcribeAudio env (Some buf) fmt e = (Inr (trim gemini_fallback), e5)"
  using assms
  by (simp add: transcribeAudio_def geminiLive_transcribeAudio_def gemini_transcribeAudio_def)

text \<open>
  C2 fails on the code. The environment is in production mode; the live request fails
  and the single-shot request fails. The claim has the call throw; the call returns the
  placeholder transcript of the single-shot path as if it were a transcript.
\<close>

theorem transcribeAudio_production_placeholder:
  "NODE_ENV outage_env = Some (str ''production'')
   \<and> sendMessage outage_env 3 [InlineData (str ''audio/webm'') (Base64 [1, 2, 3])] 2
       = (Inl (Error (str ''fetch failed'')), 3)
   \<and> generateContent outage_env 7
        (Contents [TextPart transcription_directive,
                   InlineData (str ''audio/webm'') (Base64 [1, 2, 3])]) 4
       = (Inl (Error (str ''fetch failed'')), 5)
   \<and> transcribeAudio outage_env (Some [1, 2, 3]) (str ''audio/webm'') 0
       = (Inr gemini_fallback, 5)"
proof -
  have "trim gemini_fallback = gemini_fallback"
    by (simp add: trim_def gemini_fallback_def is_space_def str_def)
  then show ?thesis
    by (simp add: transcribeAudio_def geminiLive_transcribeAudio_def gemini_transcribeAudio_def
        outage_env_def demo_env_def) (simp add: str_def)
qed


section \<open>Sentence boundaries in the streaming-text translation\<close>

lemma spaces_to_end_iff: "spaces_to_end s \<longleftrightarrow> list_all is_space s"
  by (induction s) simp_all

lemma sentence_regex_match_iff:
  "sentence_regex_match s \<longleftrightarrow>
     (\<exists>pre c sp. s = pre @ [c] @ sp \<and> (c = 0x2E \<or> c = 0x21 \<or> c = 0x3F) \<and> list_all is_space sp)"
proof (induction s)
  case Nil
  show ?case by simp
next
  case (Cons x xs)
  show ?case
  proof
    assume "sentence_regex_match (x # xs)"
    then consider "(x = 0x2E \<or> x = 0x21 \<or> x = 0x3F) \<and> spaces_to_end xs" | "sentence_regex_match xs"
      by auto
    then show "\<exists>pre c sp. x # xs = pre @ [c] @ sp \<and> (c = 0x2E \<or> c = 0x21 \<or> c = 0x3F)
                 \<and> list_all is_space sp"
    proof cases
      case 1
      then have "x # xs = [] @ [x] @ xs \<and> (x = 0x2E \<or> x = 0x21 \<or> x = 0x3F) \<and> list_all is_space xs"
        by (simp add: spaces_to_end_iff)
      then show ?thesis by blast
    next
      case 2
      with Cons.IH obtain pre c sp where
        "xs = pre @ [c] @ sp" "c = 0x2E \<or> c = 0x21 \<or> c = 0x3F" "list_all is_space sp"
        by blast
      then have "x # xs = (x # pre) @ [c] @ sp \<and> (c = 0x2E \<or> c = 0x21 \<or> c = 0x3F)
                  \<and> list_all is_space sp"
        by simp
      then show ?thesis by blast
    qed
  next
    assume "\<exists>pre c sp. x # xs = pre @ [c] @ sp \<and> (c = 0x2E \<or> c = 0x21 \<or> c = 0x3F)
              \<and> list_all is_space sp"
    then obtain pre c sp where split: "x # xs = pre @ [c] @ sp"
      and terminal: "c = 0x2E \<or> c = 0x21 \<or> c = 0x3F" and blank: "list_all is_space sp"
      by blast
    show "sentence_regex_match (x # xs)"
    proof (cases pre)
      case Nil
      with split terminal blank show ?thesis
        by (simp add: spaces_to_end_iff)
    next
      case (Cons p ps)
      with split have "xs = ps @ [c] @ sp" by simp
      with terminal blank Cons.IH have "sentence_regex_match xs" by blast
      then show ?thesis by simp
    qed
  qed
qed

lemma submit_fields [simp]:
  "textBuffer (submit env targetLang sourceLang t st) = textBuffer st"
  "submitted (submit env targetLang sourceLang t st)
     = submitted st @ [stream_prompt env targetLang sourceLang t]"
  by (simp_all add: submit_def Let_def split: prod.splits)

lemma on_data_conserves:
  "\<exists>texts. submitted (on_data env targetLang sourceLang ch st)
             = submitted st @ map (stream_prompt env targetLang sourceLang) texts
         \<and> concat texts @ textBuffer (on_data env targetLang sourceLang ch st)
             = textBuffer st @ chunk_toString env ch"
proof (cases "sentence_regex_match (textBuffer st @ chunk_toString env ch)")
  case True
  then have "submitted (on_data env targetLang sourceLang ch st)
             = submitted st @ map (stream_prompt env targetLang sourceLang)
                 [textBuffer st @ chunk_toString env ch]
         \<and> concat [textBuffer st @ chunk_toString env ch]
               @ textBuffer (on_data env targetLang sourceLang ch st)
             = textBuffer st @ chunk_toString env ch"
    by (simp add: on_data_def Let_def)
  then show ?thesis by blast
next
  case False
  then have "submitted (on_data env targetLang sourceLang ch st)
             = submitted st @ map (stream_prompt env targetLang sourceLang) []
         \<and> concat [] @ textBuffer (on_data env targetLang sourceLang ch st)
             = textBuffer st @ chunk_toString env ch"
    by (simp add: on_data_def Let_def)
  then show ?thesis by blast
qed

lemma feed_conserves:
  "\<exists>texts. submitted (feed env targetLang sourceLang chunks st)
             = submitted st @ map (stream_prompt env targetLang sourceLang) texts
         \<and> concat texts @ textBuffer (feed env targetLang sourceLang chunks st)
             = textBuffer st @ concat (map (chunk_toString env) chunks)"
proof (induction chunks arbitrary: st)
  case Nil
  have "submitted (feed env targetLang sourceLang [] st)
             = submitted st @ map (stream_prompt env targetLang sourceLang) []
         \<and> concat [] @ textBuffer (feed env targetLang sourceLang [] st)
             = textBuffer st @ concat (map (chunk_toString env) [])"
    by (simp add: feed_def)
  then show ?case by blast
next
  case (Cons ch chunks)
  let ?st1 = "on_data env targetLang sourceLang ch st"
  from on_data_conserves [of env targetLang sourceLang ch st]
  obtain first where first:
    "submitted ?st1 = submitted st @ map (stream_prompt env targetLang sourceLang) first"
    "concat first @ textBuffer ?st1 = textBuffer st @ chunk_toString env ch"
    by blast
  from Cons.IH [of ?st1]
  obtain later where later:
    "submitted (feed env targetLang sourceLang chunks ?st1)
       = submitted ?st1 @ map (stream_prompt env targetLang sourceLang) later"
    "concat later @ textBuffer (feed env targetLang sourceLang chunks ?st1)
       = textBuffer ?st1 @ concat (map (chunk_toString env) chunks)"
    by blast
  have step: "feed env targetLang sourceLang (ch # chunks) st
                = feed env targetLang sourceLang chunks ?st1"
    by (simp add: feed_def)
  have "submitted (feed env targetLang sourceLang (ch # chunks) st)
          = submitted st @ map (stream_prompt env targetLang sourceLang) (first @ later)"
    using first(1) later(1) step by simp
  moreover have "concat (first @ later) @ textBuffer (feed env targetLang sourceLang (ch # chunks) st)
          = textBuffer st @ concat (map (chunk_toString env) (ch # chunks))"
  proof -
    have "concat (first @ later) @ textBuffer (feed env targetLang sourceLang (ch # chunks) st)
          = concat first @ (concat later @ textBuffer (feed env targetLang sourceLang chunks ?st1))"
      using step by simp
    also have "\<dots> = concat first @ textBuffer ?st1 @ concat (map (chunk_toString env) chunks)"
      using later(2) by simp
    also have "\<dots> = (textBuffer st @ chunk_toString env ch) @ concat (map (chunk_toString env) chunks)"
      using first(2) by (metis append_assoc)
    finally show ?thesis by simp
  qed
  ultimately show ?case by blast
qed

lemma on_end_submitted:
  "submitted (on_end env targetLang sourceLang st)
     = submitted st @ (if textBuffer st = [] then []
                       else [stream_prompt env targetLang sourceLang (textBuffer st)])"
  by (simp add: on_end_def Let_def)

lemma stream_prompt_suffix:
  "\<exists>prefix. \<forall>t. stream_prompt env targetLang sourceLang t = prefix @ t"
proof (cases "sourceLang = JStr (str ''auto'') \<or> sourceLang = JStr defaultSourceLang")
  case True
  then have "\<forall>t. stream_prompt env targetLang sourceLang t =
      (str ''Translate the following text to '' @ interpolate env targetLang
             @ str ''. Only respond with the translation, no explanations or additional text:''
             @ [0xA, 0xA]) @ t"
    by (simp add: stream_prompt_def)
  then show ?thesis by blast
next
  case False
  then have "\<forall>t. stream_prompt env targetLang sourceLang t =
      (str ''Translate the following text from '' @ interpolate env sourceLang
             @ str '' to '' @ interpolate env targetLang
             @ str ''. Only respond with the translation, no explanations or additional text:''
             @ [0xA, 0xA]) @ t"
    by (simp add: stream_prompt_def)
  then show ?thesis by blast
qed

text \<open>
  C7. The test \<open>translateStream\<close> applies to its buffer holds exactly of the texts that
  end with \<open>.\<close>, \<open>!\<close> or \<open>?\<close> followed by nothing but white space. On a chunk the
  buffer, with the chunk appended, is handed to the engine and reset to empty when the
  test holds, and is only kept when it does not. At the end of the input a buffer that is
  not empty is handed over whatever the test says. Over a whole input, chunks and then
  end, the texts handed over are, joined in order, the initial buffer and all the chunks:
  nothing is dropped. A prompt is a fixed directive followed by the text handed over.
\<close>

theorem translateStream_releases_sentences:
  "(sentence_regex_match buf \<longleftrightarrow>
      (\<exists>pre c sp. buf = pre @ [c] @ sp \<and> (c = 0x2E \<or> c = 0x21 \<or> c = 0x3F) \<and> list_all is_space sp))
   \<and> (sentence_regex_match (textBuffer st @ chunk_toString env ch) \<longrightarrow>
        textBuffer (on_data env targetLang sourceLang ch st) = []
        \<and> submitted (on_data env targetLang sourceLang ch st)
            = submitted st @ [stream_prompt env targetLang sourceLang
                                (textBuffer st @ chunk_toString env ch)])
   \<and> (\<not> sentence_regex_match (textBuffer st @ chunk_toString env ch) \<longrightarrow>
        on_data env targetLang sourceLang ch st
          = st\<lparr>textBuffer := textBuffer st @ chunk_toString env ch\<rparr>)
   \<and> (textBuffer st \<noteq> [] \<longrightarrow>
        submitted (on_end env targetLang sourceLang st)
          = submitted st @ [stream_prompt env targetLang sourceLang (textBuffer st)])
   \<and> (\<exists>texts. submitted (on_end env targetLang sourceLang (feed env targetLang sourceLang chunks st))
                 = submitted st @ map (stream_prompt env targetLang sourceLang) texts
             \<and> concat texts = textBuffer st @ concat (map (chunk_toString env) chunks))
   \<and> (\<exists>prefix. \<forall>t. stream_prompt env targetLang sourceLang t = prefix @ t)"
proof -
  have release: "textBuffer (on_data env targetLang sourceLang ch st) = []
        \<and> submitted (on_data env targetLang sourceLang ch st)
            = submitted st @ [stream_prompt env targetLang sourceLang
                                (textBuffer st @ chunk_toString env ch)]"
    if "sentence_regex_match (textBuffer st @ chunk_toString env ch)"
    using that by (simp add: on_data_def Let_def)
  have keep: "on_data env targetLang sourceLang ch st
          = st\<lparr>textBuffer := textBuffer st @ chunk_toString env ch\<rparr>"
    if "\<not> sentence_regex_match (textBuffer st @ chunk_toString env ch)"
    using that by (simp add: on_data_def Let_def)
  have residue: "submitted (on_end env targetLang sourceLang st)
          = submitted st @ [stream_prompt env targetLang sourceLang (textBuffer st)]"
    if "textBuffer st \<noteq> []"
    using that by (simp add: on_end_submitted)
  have whole: "\<exists>texts. submitted (on_end env targetLang sourceLang (feed env targetLang sourceLang chunks st))
                 = submitted st @ map (stream_prompt env targetLang sourceLang) texts
             \<and> concat texts = textBuffer st @ concat (map (chunk_toString env) chunks)"
  proof -
    let ?fed = "feed env targetLang sourceLang chunks st"
    from feed_conserves [of env targetLang sourceLang chunks st]
    obtain texts where fed:
      "submitted ?fed = submitted st @ map (stream_prompt env targetLang sourceLang) texts"
      "concat texts @ textBuffer ?fed = textBuffer st @ concat (map (chunk_toString env) chunks)"
      by blast
    let ?all = "texts @ (if textBuffer ?fed = [] then [] else [textBuffer ?fed])"
    have "submitted (on_end env targetLang sourceLang ?fed)
            = submitted st @ map (stream_prompt env targetLang sourceLang) ?all"
      using fed(1) by (simp add: on_end_submitted)
    moreover have "concat ?all = textBuffer st @ concat (map (chunk_toString env) chunks)"
      using fed(2) by auto
    ultimately show ?thesis by blast
  qed
  show ?thesis
    using sentence_regex_match_iff [of buf] release keep residue whole
      stream_prompt_suffix [of env targetLang sourceLang]
    by blast
qed


theorem translateStream_releases_sentences_witness:
  "sentence_regex_match (textBuffer (demo_stream (str ''Hello wor''))
      @ chunk_toString demo_env (StringChunk (str ''ld. '')))
   \<and> textBuffer (on_data demo_env es auto_lang (StringChunk (str ''ld. ''))
        (demo_stream (str ''Hello wor''))) = []
   \<and> submitted (on_data demo_env es auto_lang (StringChunk (str ''ld. ''))
        (demo_stream (str ''Hello wor'')))
       = [stream_prompt demo_env es auto_lang (str ''Hello world. '')]
   \<and> textBuffer (demo_stream (str ''Bye'')) \<noteq> []
   \<and> \<not> sentence_regex_match (str ''Bye'')
   \<and> submitted (on_end demo_env es auto_lang (demo_stream (str ''Bye'')))
       = [stream_prompt demo_env es auto_lang (str ''Bye'')]"
proof -
  let ?st = "demo_stream (str ''Hello wor'')"
  let ?ch = "StringChunk (str ''ld. '')"
  have joined: "textBuffer ?st @ chunk_toString demo_env ?ch = str ''Hello world. ''"
    by (simp add: demo_stream_def chunk_toString_def str_def)
  have h1: "sentence_regex_match (textBuffer ?st @ chunk_toString demo_env ?ch)"
    unfolding joined by (simp add: str_def is_space_def)
  have h2: "textBuffer (demo_stream (str ''Bye'')) \<noteq> []"
    by (simp add: demo_stream_def str_def)
  have h3: "\<not> sentence_regex_match (str ''Bye'')"
    by (simp add: str_def)
  from translateStream_releases_sentences
    [where st = ?st and ch = ?ch and env = demo_env and targetLang = es and sourceLang = auto_lang] h1
  have a: "textBuffer (on_data demo_env es auto_lang ?ch ?st) = []"
    and b: "submitted (on_data demo_env es auto_lang ?ch ?st)
        = submitted ?st @ [stream_prompt demo_env es auto_lang
                             (textBuffer ?st @ chunk_toString demo_env ?ch)]"
    by blast+
  from translateStream_releases_sentences
    [where st = "demo_stream (str ''Bye'')" and env = demo_env and targetLang = es
       and sourceLang = auto_lang] h2
  have c: "submitted (on_end demo_env es auto_lang (demo_stream (str ''Bye'')))
        = submitted (demo_stream (str ''Bye''))
            @ [stream_prompt demo_env es auto_lang (textBuffer (demo_stream (str ''Bye'')))]"
    by blast
  from b have b': "submitted (on_data demo_env es auto_lang ?ch ?st)
       = [stream_prompt demo_env es auto_lang (str ''Hello world. '')]"
    unfolding joined by (simp add: demo_stream_def)
  from c have c': "submitted (on_end demo_env es auto_lang (demo_stream (str ''Bye'')))
       = [stream_prompt demo_env es auto_lang (str ''Bye'')]"
    by (simp add: demo_stream_def)
  from h1 a b' h2 h3 c' show ?thesis by blast
qed

end
